theory Spec2Isabelle
  imports Complex_Main "HOL-Library.Sublist" "HOL-Library.Log_Nat"
begin

section \<open>Texts and character classes\<close>

text \<open>
  The resume matcher works on JavaScript strings. A text is modelled as a \<open>string\<close>,
  a list of 8-bit characters read as the code points 0 to 255 (Latin-1). The character
  classes below are the ones the regular expressions of the source use, restricted to
  that range: \<open>\w\<close> is \<open>[A-Za-z0-9_]\<close>, \<open>\d\<close> is \<open>[0-9]\<close>, and \<open>\s\<close> holds tab,
  line feed, vertical tab, form feed, carriage return, space and the no-break space.
\<close>

definition code :: "char \<Rightarrow> int" where
  "code c = of_char c"

definition is_digit :: "char \<Rightarrow> bool" where
  "is_digit c \<longleftrightarrow> 48 \<le> code c \<and> code c \<le> 57"

definition is_upper :: "char \<Rightarrow> bool" where
  "is_upper c \<longleftrightarrow> 65 \<le> code c \<and> code c \<le> 90"

definition is_lower :: "char \<Rightarrow> bool" where
  "is_lower c \<longleftrightarrow> 97 \<le> code c \<and> code c \<le> 122"

definition is_word_char :: "char \<Rightarrow> bool" where
  "is_word_char c \<longleftrightarrow> is_digit c \<or> is_upper c \<or> is_lower c \<or> c = CHR ''_''"

definition is_space :: "char \<Rightarrow> bool" where
  "is_space c \<longleftrightarrow> (9 \<le> code c \<and> code c \<le> 13) \<or> code c = 32 \<or> code c = 160"

definition is_line_terminator :: "char \<Rightarrow> bool" where
  "is_line_terminator c \<longleftrightarrow> code c = 10 \<or> code c = 13"

text \<open>
  \<open>String.prototype.toLowerCase\<close>, character by character: the ASCII capitals and the
  Latin-1 capitals (192 to 222 without the multiplication sign 215) move up by 32.
\<close>

definition toLowerCase_char :: "char \<Rightarrow> char" where
  "toLowerCase_char c =
     (if is_upper c \<or> (192 \<le> code c \<and> code c \<le> 222 \<and> code c \<noteq> 215)
      then char_of (code c + 32) else c)"

definition toLowerCase :: "string \<Rightarrow> string" where
  "toLowerCase s = map toLowerCase_char s"

section \<open>Normalisation (the first statement of \<open>extractKeywords\<close>)\<close>

text \<open>
  \<^verbatim>\<open>text.toLowerCase().replace(/[^\w\s.-]/g, ' ').replace(/\s+/g, ' ')\<close>:
  every character that is not a word character, white space, a period or a hyphen
  becomes a space; then every maximal run of white space becomes one space.
\<close>

definition replace_other :: "string \<Rightarrow> string" where
  "replace_other s =
     map (\<lambda>c. if is_word_char c \<or> is_space c \<or> c = CHR ''.'' \<or> c = CHR ''-''
              then c else CHR '' '') s"

function collapse_spaces :: "string \<Rightarrow> string" where
  "collapse_spaces [] = []"
| "collapse_spaces (c # cs) =
     (if is_space c then CHR '' '' # collapse_spaces (dropWhile is_space cs)
      else c # collapse_spaces cs)"
  by pat_completeness auto
termination
  by (relation "measure length") (auto simp: less_Suc_eq_le length_dropWhile_le)

definition normalize :: "string \<Rightarrow> string" where
  "normalize text = collapse_spaces (replace_other (toLowerCase text))"

section \<open>The term catalog\<close>

definition stopWords :: "string list" where
  "stopWords =
   [''the'', ''and'', ''for'', ''with'', ''this'', ''that'', ''from'', ''will'', ''have'', ''has'',
    ''are'', ''was'', ''were'', ''been'', ''being'', ''but'', ''not'', ''can'', ''could'', ''should'',
    ''would'', ''may'', ''might'', ''must'', ''shall'', ''our'', ''your'', ''their'', ''its'',
    ''about'', ''into'', ''through'', ''during'', ''before'', ''after'', ''above'', ''below'',
    ''between'', ''under'', ''again'', ''further'', ''then'', ''once'', ''here'', ''there'',
    ''when'', ''where'', ''why'', ''how'', ''all'', ''both'', ''each'', ''few'', ''more'', ''most'',
    ''other'', ''some'', ''such'', ''only'', ''own'', ''same'', ''than'', ''too'', ''very'',
    ''work'', ''working'', ''experience'', ''years'', ''team'', ''company'', ''role'', ''position'',
    ''responsibilities'', ''requirements'', ''skills'', ''ability'', ''strong'', ''good'',
    ''excellent'', ''knowledge'', ''understanding'', ''including'', ''required'', ''preferred'']"

definition technicalTerms :: "string list" where
  "technicalTerms =
   [''javascript'', ''python'', ''java'', ''typescript'', ''c++'', ''ruby'', ''php'', ''swift'',
    ''kotlin'', ''go'', ''rust'', ''scala'', ''r'', ''matlab'', ''perl'', ''shell'', ''bash'',
    ''react'', ''angular'', ''vue'', ''svelte'', ''html'', ''css'', ''sass'', ''less'', ''webpack'',
    ''nextjs'', ''gatsby'', ''tailwind'', ''bootstrap'', ''jquery'', ''redux'', ''mobx'',
    ''nodejs'', ''node.js'', ''express'', ''django'', ''flask'', ''spring'', ''laravel'',
    ''rails'', ''fastapi'', ''nestjs'', ''graphql'', ''rest'', ''api'', ''microservices'',
    ''sql'', ''mysql'', ''postgresql'', ''mongodb'', ''redis'', ''elasticsearch'', ''cassandra'',
    ''dynamodb'', ''oracle'', ''sqlite'', ''mariadb'', ''nosql'', ''firebase'',
    ''aws'', ''azure'', ''gcp'', ''docker'', ''kubernetes'', ''jenkins'', ''gitlab'', ''github'',
    ''terraform'', ''ansible'', ''ci/cd'', ''devops'', ''cloud'', ''serverless'', ''lambda'',
    ''tensorflow'', ''pytorch'', ''keras'', ''scikit-learn'', ''pandas'', ''numpy'', ''jupyter'',
    ''machine learning'', ''deep learning'', ''nlp'', ''computer vision'', ''data science'',
    ''git'', ''jira'', ''agile'', ''scrum'', ''kanban'', ''testing'', ''junit'', ''jest'',
    ''cypress'', ''selenium'', ''tdd'', ''bdd'', ''linux'', ''unix'', ''nginx'', ''apache'',
    ''leadership'', ''communication'', ''collaboration'', ''problem-solving'', ''analytical'',
    ''mentoring'', ''project management'', ''stakeholder management'']"

text \<open>\<open>stopWords.has(w)\<close> and \<open>technicalTerms.has(w)\<close>: exact, case-sensitive membership.\<close>

definition isStopWord :: "string \<Rightarrow> bool" where
  "isStopWord w \<longleftrightarrow> w \<in> set stopWords"

definition isTechnicalTerm :: "string \<Rightarrow> bool" where
  "isTechnicalTerm w \<longleftrightarrow> w \<in> set technicalTerms"

section \<open>Keyword extraction (\<open>extractKeywords\<close>)\<close>

text \<open>\<open>s.includes(t)\<close>: \<open>t\<close> occurs in \<open>s\<close> as a contiguous piece.\<close>

fun str_includes :: "string \<Rightarrow> string \<Rightarrow> bool" where
  "str_includes [] t = (t = [])"
| "str_includes (c # cs) t = (prefix t (c # cs) \<or> str_includes cs t)"

text \<open>
  The multi-word terms, in the iteration order of the catalog:
  \<^verbatim>\<open>technicalTerms.forEach(term => { if (term.includes(' ') && normalizedText.includes(term)) ... })\<close>
\<close>

definition multiWordTerms :: "string \<Rightarrow> string list" where
  "multiWordTerms normalizedText =
     filter (\<lambda>term. CHR '' '' \<in> set term \<and> str_includes normalizedText term) technicalTerms"

text \<open>
  \<open>s.split(/\s+/)\<close>: the pieces between the maximal runs of white space. A text that
  starts or ends with white space yields an empty first or last piece, and the empty
  text yields one empty piece.
\<close>

function split_ws :: "string \<Rightarrow> string list" where
  "split_ws s =
     (let w = takeWhile (\<lambda>c. \<not> is_space c) s;
          rest = dropWhile (\<lambda>c. \<not> is_space c) s
      in if rest = [] then [w] else w # split_ws (dropWhile is_space rest))"
  by pat_completeness auto
termination
proof (relation "measure length")
  fix s w rest
  assume r: "rest = dropWhile (\<lambda>c. \<not> is_space c) s" and ne: "rest \<noteq> []"
  from ne obtain c cs where rc: "rest = c # cs" by (cases rest) auto
  have "dropWhile (\<lambda>c. \<not> is_space c) s \<noteq> []" using r ne by simp
  from hd_dropWhile [OF this] have "is_space (hd rest)" unfolding r by simp
  then have "is_space c" unfolding rc by simp
  then have "length (dropWhile is_space rest) \<le> length cs"
    using rc by (simp add: length_dropWhile_le)
  also have "length cs < length rest" using rc by simp
  also have "length rest \<le> length s" using r by (simp add: length_dropWhile_le)
  finally show "(dropWhile is_space rest, s) \<in> measure length" by simp
qed simp

declare split_ws.simps [simp del]

text \<open>The test \<open>/[\d+#.-]/.test(word)\<close>.\<close>

definition has_digit_or_symbol :: "string \<Rightarrow> bool" where
  "has_digit_or_symbol word \<longleftrightarrow>
     list_ex (\<lambda>c. is_digit c \<or> c = CHR ''+'' \<or> c = CHR ''#'' \<or> c = CHR ''.'' \<or> c = CHR ''-'') word"

definition keepWord :: "string \<Rightarrow> bool" where
  "keepWord word \<longleftrightarrow>
     length word > 2 \<and> \<not> isStopWord word \<and> (isTechnicalTerm word \<or> has_digit_or_symbol word)"

definition singleWords :: "string \<Rightarrow> string list" where
  "singleWords normalizedText = filter keepWord (split_ws normalizedText)"

text \<open>
  \<open>[...new Set([...multiWordTerms, ...words])]\<close>: a \<open>Set\<close> keeps its elements in the
  order of their first insertion.
\<close>

definition set_add :: "'a list \<Rightarrow> 'a \<Rightarrow> 'a list" where
  "set_add seen x = (if x \<in> set seen then seen else seen @ [x])"

definition new_Set :: "'a list \<Rightarrow> 'a list" where
  "new_Set xs = foldl set_add [] xs"

definition allTerms :: "string \<Rightarrow> string list" where
  "allTerms normalizedText = new_Set (multiWordTerms normalizedText @ singleWords normalizedText)"

text \<open>
  \<open>(normalizedText.match(new RegExp(term, 'gi')) || []).length\<close>: the term is read as a
  regular expression. The terms that reach this point are made of the characters
  \<open>a-z\<close>, \<open>0-9\<close>, \<open>_\<close>, \<open>-\<close>, the space and the period (lemma \<open>allTerms_chars\<close> below), of
  which only the period is special: it matches any character but a line terminator.
  Every other character matches itself, up to case. With the flag \<open>g\<close> the matches are
  counted from left to right, each search starting where the previous match ended.
\<close>

definition canonicalize :: "char \<Rightarrow> char" where
  "canonicalize c = (if is_lower c then char_of (code c - 32) else c)"

definition re_char :: "char \<Rightarrow> char \<Rightarrow> bool" where
  "re_char p c \<longleftrightarrow>
     (if p = CHR ''.'' then \<not> is_line_terminator c else canonicalize p = canonicalize c)"

fun re_prefix :: "string \<Rightarrow> string \<Rightarrow> bool" where
  "re_prefix [] cs = True"
| "re_prefix (p # ps) [] = False"
| "re_prefix (p # ps) (c # cs) = (re_char p c \<and> re_prefix ps cs)"

function countMatches :: "string \<Rightarrow> string \<Rightarrow> nat" where
  "countMatches term txt =
     (if term = [] then length txt + 1
      else if txt = [] then 0
      else if re_prefix term txt then 1 + countMatches term (drop (length term) txt)
      else countMatches term (tl txt))"
  by pat_completeness auto
termination
  by (relation "measure (\<lambda>(term, txt). length txt)") (auto simp: neq_Nil_conv)

declare countMatches.simps [simp del]

text \<open>
  \<open>termCount\<close> is a plain object filled in the order of \<open>allTerms\<close>. \<open>Object.entries\<close>
  lists its keys that are array indices (canonical decimal numerals below \<open>2^32 - 1\<close>)
  first, in ascending numeric order, and then the other keys in the order of their
  creation. The terms are distinct, so no key is written twice.
\<close>

definition digit_value :: "char \<Rightarrow> int" where
  "digit_value c = code c - 48"

definition numeral_value :: "string \<Rightarrow> int" where
  "numeral_value s = foldl (\<lambda>a c. 10 * a + digit_value c) 0 s"

definition is_array_index :: "string \<Rightarrow> bool" where
  "is_array_index key \<longleftrightarrow>
     key \<noteq> [] \<and> list_all is_digit key \<and> (hd key \<noteq> CHR ''0'' \<or> length key = 1)
     \<and> numeral_value key < 4294967295"

definition Object_entries :: "(string \<times> 'v) list \<Rightarrow> (string \<times> 'v) list" where
  "Object_entries props =
     sort_key (\<lambda>kv. numeral_value (fst kv)) (filter (\<lambda>kv. is_array_index (fst kv)) props)
     @ filter (\<lambda>kv. \<not> is_array_index (fst kv)) props"

definition termCount :: "string \<Rightarrow> (string \<times> nat) list" where
  "termCount normalizedText =
     map (\<lambda>term. (term, countMatches term normalizedText)) (allTerms normalizedText)"

text \<open>
  The comparator of the ranking, and \<open>Array.prototype.sort\<close>. The sort is stable and the
  comparator is a total preorder (technical terms first, then falling counts), so the
  sorted array is determined; it is computed here by stable insertion.
\<close>

definition compareTerms :: "string \<times> nat \<Rightarrow> string \<times> nat \<Rightarrow> int" where
  "compareTerms a b =
     (let aIsTech = isTechnicalTerm (fst a); bIsTech = isTechnicalTerm (fst b)
      in if aIsTech \<and> \<not> bIsTech then - 1
         else if \<not> aIsTech \<and> bIsTech then 1
         else int (snd b) - int (snd a))"

fun insert_by :: "('a \<Rightarrow> 'a \<Rightarrow> int) \<Rightarrow> 'a \<Rightarrow> 'a list \<Rightarrow> 'a list" where
  "insert_by cmp x [] = [x]"
| "insert_by cmp x (y # ys) = (if cmp x y \<le> 0 then x # y # ys else y # insert_by cmp x ys)"

definition sort_by :: "('a \<Rightarrow> 'a \<Rightarrow> int) \<Rightarrow> 'a list \<Rightarrow> 'a list" where
  "sort_by cmp xs = foldr (insert_by cmp) xs []"

definition extractKeywords :: "string \<Rightarrow> string list" where
  "extractKeywords text =
     (let normalizedText = normalize text
      in map fst (take 30 (sort_by compareTerms (Object_entries (termCount normalizedText)))))"

section \<open>JavaScript numbers\<close>

text \<open>
  JavaScript numbers are IEEE 754 doubles, and the score is computed with them:
  \<open>(a / b) * 100\<close> rounds twice, once after the division and once after the product.
  A finite non-negative double is modelled by a pair \<open>(m, e)\<close> of integers that stands
  for \<open>m * 2^e\<close>. \<open>round_ratio p q s\<close> is the double nearest to \<open>(p / q) * 2^s\<close> for
  \<open>p \<ge> 0\<close> and \<open>q > 0\<close>: the quotient is scaled so that its integer part has 53 bits
  and is rounded to the nearest integer, ties to even. Exponent overflow and
  subnormal numbers are not modelled; the numbers of this program stay far from both.
\<close>

type_synonym double = "int \<times> int"

definition tie_to_even :: "int \<Rightarrow> int \<Rightarrow> int \<Rightarrow> int" where
  "tie_to_even f r d =
     (if 2 * r < d then f else if d < 2 * r then f + 1 else if even f then f else f + 1)"

definition nearest_even :: "int \<Rightarrow> int \<Rightarrow> int" where
  "nearest_even n d = tie_to_even (n div d) (n mod d) d"

definition scaled_nearest :: "int \<Rightarrow> int \<Rightarrow> int \<Rightarrow> int" where
  "scaled_nearest p q e =
     (if 0 \<le> e then nearest_even p (q * 2 ^ nat e) else nearest_even (p * 2 ^ nat (- e)) q)"

text \<open>\<open>floor_log2 p q\<close> is the integer \<open>E\<close> with \<open>2^E \<le> p / q < 2^(E + 1)\<close>.\<close>

definition adjust_log2 :: "int \<Rightarrow> int \<Rightarrow> int \<Rightarrow> int" where
  "adjust_log2 p q k =
     (if (if 0 \<le> k then q * 2 ^ nat k \<le> p else q \<le> p * 2 ^ nat (- k)) then k else k - 1)"

definition floor_log2 :: "int \<Rightarrow> int \<Rightarrow> int" where
  "floor_log2 p q = adjust_log2 p q (bitlen p - bitlen q)"

definition round_at :: "int \<Rightarrow> int \<Rightarrow> int \<Rightarrow> int \<Rightarrow> double" where
  "round_at p q s e = (scaled_nearest p q e, e + s)"

definition round_ratio :: "int \<Rightarrow> int \<Rightarrow> int \<Rightarrow> double" where
  "round_ratio p q s = (if p = 0 then (0, 0) else round_at p q s (floor_log2 p q - 52))"

text \<open>An integer below \<open>2^53\<close>, such as the length of an array, is a double as it is.\<close>

definition js_int :: "int \<Rightarrow> double" where
  "js_int n = (n, 0)"

definition js_div :: "double \<Rightarrow> double \<Rightarrow> double" where
  "js_div x y = round_ratio (fst x) (fst y) (snd x - snd y)"

definition js_mul :: "double \<Rightarrow> double \<Rightarrow> double" where
  "js_mul x y = round_ratio (fst x * fst y) 1 (snd x + snd y)"

definition js_add :: "double \<Rightarrow> double \<Rightarrow> double" where
  "js_add x y =
     round_ratio (fst x * 2 ^ nat (snd x - min (snd x) (snd y))
                  + fst y * 2 ^ nat (snd y - min (snd x) (snd y))) 1 (min (snd x) (snd y))"

text \<open>
  \<open>Math.round\<close> is exact: the integer nearest to the value, the larger one at a tie,
  that is \<open>\<lfloor>x + 1/2\<rfloor>\<close>.
\<close>

definition Math_round :: "double \<Rightarrow> int" where
  "Math_round x =
     (if 0 \<le> snd x then fst x * 2 ^ nat (snd x)
      else (2 * fst x + 2 ^ nat (- snd x)) div 2 ^ nat (1 - snd x))"

text \<open>The value of a double, for stating what the operations compute.\<close>

definition double_value :: "double \<Rightarrow> rat" where
  "double_value x = of_int (fst x) * 2 powi (snd x)"

section \<open>The match scorer (part of \<open>analyzeWithHuggingFace\<close>)\<close>

text \<open>\<open>resumeSet.has(w)\<close> for \<open>resumeSet = new Set(resumeKeywords.map(k => k.toLowerCase()))\<close>.\<close>

definition resumeSet_has :: "string list \<Rightarrow> string \<Rightarrow> bool" where
  "resumeSet_has resumeKeywords w \<longleftrightarrow> w \<in> set (map toLowerCase resumeKeywords)"

definition matchedSkills :: "string list \<Rightarrow> string list \<Rightarrow> string list" where
  "matchedSkills resumeKeywords jdKeywords =
     filter (\<lambda>jdKeyword. resumeSet_has resumeKeywords (toLowerCase jdKeyword)) jdKeywords"

text \<open>The local \<open>missingKeywords\<close>, cut to six; the report cuts it again to five.\<close>

definition missingKeywords_found :: "string list \<Rightarrow> string list \<Rightarrow> string list" where
  "missingKeywords_found resumeKeywords jdKeywords =
     take 6 (filter (\<lambda>jdKeyword. \<not> resumeSet_has resumeKeywords (toLowerCase jdKeyword)
                                 \<and> isTechnicalTerm (toLowerCase jdKeyword)) jdKeywords)"

definition technicalMatches :: "string list \<Rightarrow> string list \<Rightarrow> string list" where
  "technicalMatches resumeKeywords jdKeywords =
     filter (\<lambda>skill. isTechnicalTerm (toLowerCase skill)) (matchedSkills resumeKeywords jdKeywords)"

definition technicalRequirements :: "string list \<Rightarrow> string list" where
  "technicalRequirements jdKeywords =
     filter (\<lambda>keyword. isTechnicalTerm (toLowerCase keyword)) jdKeywords"

definition percentage :: "nat \<Rightarrow> nat \<Rightarrow> int \<Rightarrow> int" where
  "percentage a b factor =
     Math_round (js_mul (js_div (js_int (int a)) (js_int (int b))) (js_int factor))"

definition matchScore_value :: "string list \<Rightarrow> string list \<Rightarrow> int" where
  "matchScore_value resumeKeywords jdKeywords =
     min (if length (technicalRequirements jdKeywords) > 0
          then percentage (length (technicalMatches resumeKeywords jdKeywords))
                          (length (technicalRequirements jdKeywords)) 100
          else percentage (length (matchedSkills resumeKeywords jdKeywords))
                          (max (length jdKeywords) 1) 85)
         95"

definition displaySkills :: "string list \<Rightarrow> string list \<Rightarrow> string list" where
  "displaySkills resumeKeywords jdKeywords =
     (if length (matchedSkills resumeKeywords jdKeywords) > 0
      then take 8 (matchedSkills resumeKeywords jdKeywords)
      else take 5 (filter (\<lambda>k. isTechnicalTerm (toLowerCase k)) resumeKeywords))"

definition matchLevel_value :: "int \<Rightarrow> string" where
  "matchLevel_value score =
     (if score \<ge> 80 then ''Strong Candidate Match''
      else if score \<ge> 60 then ''Good Candidate Match''
      else if score \<ge> 40 then ''Moderate Candidate Match''
      else ''Potential Candidate Match'')"

section \<open>The suggestion provider (the inner \<open>try\<close> of \<open>analyzeWithHuggingFace\<close>)\<close>

text \<open>
  The call to the summarisation service is the only effect of the analysis. Its
  outcome is a parameter of the model: \<open>fetch\<close> rejects, or it yields a response with
  its \<open>ok\<close> flag and a body that \<open>response.json()\<close> parses or rejects. A parsed body is
  any JSON value.
\<close>

datatype json =
  JNull | JBool bool | JNum rat | JStr string | JArr "json list" | JObj "(string \<times> json) list"

datatype hf_outcome = FetchRejected | Responded bool "json option"

datatype js_exception = FetchError | JsonError | TypeError

text \<open>
  \<open>data[0]\<close>: reading a property of \<open>null\<close> throws; an array gives its first element, an
  object its property \<open>"0"\<close> (the last one written, when the JSON text repeats the key),
  a string its first character; everything else gives \<open>undefined\<close>, here \<open>None\<close>.
\<close>

definition js_index0 :: "json \<Rightarrow> js_exception + json option" where
  "js_index0 data =
     (case data of
        JNull \<Rightarrow> Inl TypeError
      | JArr xs \<Rightarrow> Inr (case xs of [] \<Rightarrow> None | x # _ \<Rightarrow> Some x)
      | JObj props \<Rightarrow> Inr (map_of (rev props) ''0'')
      | JStr str \<Rightarrow> Inr (case str of [] \<Rightarrow> None | c # _ \<Rightarrow> Some (JStr [c]))
      | _ \<Rightarrow> Inr None)"

text \<open>\<open>x?.summary_text\<close>: \<open>undefined\<close> for \<open>undefined\<close> and \<open>null\<close>, a property read otherwise.\<close>

definition optional_summary_text :: "json option \<Rightarrow> json option" where
  "optional_summary_text x =
     (case x of
        Some (JObj props) \<Rightarrow> map_of (rev props) ''summary_text''
      | _ \<Rightarrow> None)"

definition truthy :: "json \<Rightarrow> bool" where
  "truthy v =
     (case v of JNull \<Rightarrow> False | JBool b \<Rightarrow> b | JNum n \<Rightarrow> n \<noteq> 0 | JStr str \<Rightarrow> str \<noteq> []
      | _ \<Rightarrow> True)"

text \<open>\<open>s.split('.')\<close> and \<open>s.trim()\<close>.\<close>

fun split_on :: "char \<Rightarrow> string \<Rightarrow> string list" where
  "split_on sep [] = [[]]"
| "split_on sep (c # cs) =
     (if c = sep then [] # split_on sep cs
      else (case split_on sep cs of [] \<Rightarrow> [[c]] | w # ws \<Rightarrow> (c # w) # ws))"

definition trim :: "string \<Rightarrow> string" where
  "trim s = rev (dropWhile is_space (rev (dropWhile is_space s)))"

definition fallback_improvements :: "string list" where
  "fallback_improvements =
     [''Add quantifiable metrics to your achievements (e.g., 'Increased performance by 40%', 'Led team of 5 developers')'',
      ''Include more technical keywords from the job description in your skills and experience sections'',
      ''Highlight projects or experiences that directly relate to the key responsibilities mentioned in the job description'']"

definition suggestions_of :: "string \<Rightarrow> string list" where
  "suggestions_of summary_text =
     take 3 (filter (\<lambda>s. length (trim s) > 10) (split_on CHR ''.'' summary_text))"

text \<open>
  The body of the \<open>try\<close>: \<open>Inl\<close> is a thrown exception, \<open>Inr (Some v)\<close> an assignment of
  \<open>v\<close> to \<open>improvements\<close>, \<open>Inr None\<close> no assignment. A truthy \<open>summary_text\<close> that is not a
  string has no \<open>split\<close> method, and calling it throws.
\<close>

definition hf_try :: "hf_outcome \<Rightarrow> js_exception + string list option" where
  "hf_try outcome =
     (case outcome of
        FetchRejected \<Rightarrow> Inl FetchError
      | Responded ok body \<Rightarrow>
          if \<not> ok then Inr None
          else (case body of
                  None \<Rightarrow> Inl JsonError
                | Some data \<Rightarrow>
                    (case js_index0 data of
                       Inl e \<Rightarrow> Inl e
                     | Inr first \<Rightarrow>
                         (case optional_summary_text first of
                            None \<Rightarrow> Inr None
                          | Some v \<Rightarrow>
                              if \<not> truthy v then Inr None
                              else (case v of
                                      JStr summary_text \<Rightarrow>
                                        if length (suggestions_of summary_text) > 0
                                        then Inr (Some (map (\<lambda>s. trim s @ ''.'')
                                                        (suggestions_of summary_text)))
                                        else Inr None
                                    | _ \<Rightarrow> Inl TypeError)))))"

text \<open>
  \<open>let improvements = [...]; try { ... } catch (hfError) { console.log(...) }\<close>:
  the handler only logs, so an exception leaves the initial list in place.
\<close>

definition improvements_value :: "hf_outcome \<Rightarrow> string list" where
  "improvements_value outcome =
     (case hf_try outcome of
        Inl hfError \<Rightarrow> fallback_improvements
      | Inr None \<Rightarrow> fallback_improvements
      | Inr (Some suggestions) \<Rightarrow> suggestions)"

section \<open>Regular expressions of the field extractor\<close>

text \<open>
  The title and company rules are regular-expression literals. They are kept as data,
  in a small syntax that covers what the literals use: a character test, sequence,
  alternative, greedy repetition with a lower and an optional upper bound, the
  capturing group and the two line anchors of the flag \<open>m\<close>.
\<close>

datatype regex =
  Empty
| Class "char \<Rightarrow> bool"
| Seq regex regex
| Alt regex regex
| Repeat nat "nat option" regex
| Group regex
| Bol
| Eol

text \<open>
  A matcher state: the characters before the position, last one first; the characters
  from the position on; the text of the capturing group, once it has been closed.
\<close>

record mstate =
  behind :: string
  rest :: string
  capture :: "string option"

text \<open>
  \<open>matches r s\<close> lists the states in which a match of \<open>r\<close> started at \<open>s\<close> can end, in the
  order in which a backtracking matcher tries them: the left alternative first, the
  longer repetition first. The first state of the list is the match JavaScript reports.
  An unbounded repetition is bounded by the number of characters left, since every
  repeated expression of the rules below consumes a character.
\<close>

fun repeat_matches ::
  "(mstate \<Rightarrow> mstate list) \<Rightarrow> nat \<Rightarrow> nat \<Rightarrow> mstate \<Rightarrow> mstate list" where
  "repeat_matches f lo 0 s = (if lo = 0 then [s] else [])"
| "repeat_matches f lo (Suc n) s =
     concat (map (repeat_matches f (lo - 1) n) (f s)) @ (if lo = 0 then [s] else [])"

primrec matches :: "regex \<Rightarrow> mstate \<Rightarrow> mstate list" where
  "matches Empty s = [s]"
| "matches (Class P) s =
     (case rest s of
        [] \<Rightarrow> []
      | c # cs \<Rightarrow> if P c then [s\<lparr>behind := c # behind s, rest := cs\<rparr>] else [])"
| "matches (Seq r1 r2) s = concat (map (matches r2) (matches r1 s))"
| "matches (Alt r1 r2) s = matches r1 s @ matches r2 s"
| "matches (Repeat lo hi r) s =
     repeat_matches (matches r) lo (case hi of None \<Rightarrow> length (rest s) | Some h \<Rightarrow> h) s"
| "matches (Group r) s =
     map (\<lambda>s'. s'\<lparr>capture := Some (rev (take (length (behind s') - length (behind s)) (behind s')))\<rparr>)
         (matches r s)"
| "matches Bol s = (if behind s = [] \<or> is_line_terminator (hd (behind s)) then [s] else [])"
| "matches Eol s = (if rest s = [] \<or> is_line_terminator (hd (rest s)) then [s] else [])"

text \<open>
  \<open>text.match(r)\<close> without the flag \<open>g\<close>: the first match at the leftmost position that
  has one, or \<open>null\<close>, here \<open>None\<close>.
\<close>

fun search :: "regex \<Rightarrow> string \<Rightarrow> string \<Rightarrow> mstate option" where
  "search r bef [] =
     (case matches r \<lparr>behind = bef, rest = [], capture = None\<rparr> of
        [] \<Rightarrow> None | m # _ \<Rightarrow> Some m)"
| "search r bef (c # cs) =
     (case matches r \<lparr>behind = bef, rest = c # cs, capture = None\<rparr> of
        [] \<Rightarrow> search r (c # bef) cs | m # _ \<Rightarrow> Some m)"

definition js_match :: "string \<Rightarrow> regex \<Rightarrow> mstate option" where
  "js_match text r = search r [] text"

text \<open>Building blocks: a literal under the flag \<open>i\<close>, \<open>\s\<close>, and the class \<open>[^\n,.]\<close>.\<close>

definition char_i :: "char \<Rightarrow> regex" where
  "char_i c = Class (\<lambda>x. canonicalize x = canonicalize c)"

definition lit_i :: "string \<Rightarrow> regex" where
  "lit_i str = foldr (\<lambda>c r. Seq (char_i c) r) str Empty"

definition char_lit :: "char \<Rightarrow> regex" where
  "char_lit c = Class (\<lambda>x. x = c)"

definition space_class :: regex where
  "space_class = Class is_space"

definition field_char :: regex where
  "field_char = Class (\<lambda>x. x \<noteq> CHR 0x0A \<and> x \<noteq> CHR '','' \<and> x \<noteq> CHR ''.'')"

text \<open>
  \<^verbatim>\<open>/(?:position|role|title|job):\s*([^\n,.]+)/i\<close>
  \<^verbatim>\<open>/(?:hiring|seeking|looking for)\s+(?:a|an)?\s*([^\n,.]{10,50})/i\<close>
  \<^verbatim>\<open>/^([A-Z][a-z]+(?:\s+[A-Z][a-z]+){1,4})\s*$/m\<close>
\<close>

definition title_label :: regex where
  "title_label =
     Seq (Alt (lit_i ''position'') (Alt (lit_i ''role'') (Alt (lit_i ''title'') (lit_i ''job''))))
    (Seq (char_lit CHR '':'')
    (Seq (Repeat 0 None space_class)
         (Group (Repeat 1 None field_char))))"

definition title_hiring :: regex where
  "title_hiring =
     Seq (Alt (lit_i ''hiring'') (Alt (lit_i ''seeking'') (lit_i ''looking for'')))
    (Seq (Repeat 1 None space_class)
    (Seq (Repeat 0 (Some 1) (Alt (lit_i ''a'') (lit_i ''an'')))
    (Seq (Repeat 0 None space_class)
         (Group (Repeat 10 (Some 50) field_char)))))"

definition capitalized_word :: regex where
  "capitalized_word = Seq (Class is_upper) (Repeat 1 None (Class is_lower))"

definition title_line :: regex where
  "title_line =
     Seq Bol
    (Seq (Group (Seq capitalized_word
                     (Repeat 1 (Some 4) (Seq (Repeat 1 None space_class) capitalized_word))))
    (Seq (Repeat 0 None space_class)
         Eol))"

definition titlePatterns :: "regex list" where
  "titlePatterns = [title_label, title_hiring, title_line]"

text \<open>
  \<^verbatim>\<open>/(?:company|at|employer):\s*([^\n,.]+)/i\<close>
  \<^verbatim>\<open>/(?:join|work at|careers at)\s+([^\n,.]{2,30})/i\<close>
\<close>

definition company_label :: regex where
  "company_label =
     Seq (Alt (lit_i ''company'') (Alt (lit_i ''at'') (lit_i ''employer'')))
    (Seq (char_lit CHR '':'')
    (Seq (Repeat 0 None space_class)
         (Group (Repeat 1 None field_char))))"

definition company_join :: regex where
  "company_join =
     Seq (Alt (lit_i ''join'') (Alt (lit_i ''work at'') (lit_i ''careers at'')))
    (Seq (Repeat 1 None space_class)
         (Group (Repeat 2 (Some 30) field_char)))"

definition companyPatterns :: "regex list" where
  "companyPatterns = [company_label, company_join]"

text \<open>
  The loop over the rules: \<open>if (match && match[1]) { ... = match[1].trim(); break; }\<close>.
  A rule counts when it matches and its group is a non-empty string.
\<close>

fun first_group :: "regex list \<Rightarrow> string \<Rightarrow> string \<Rightarrow> string" where
  "first_group [] jobDescription placeholder = placeholder"
| "first_group (pattern # patterns) jobDescription placeholder =
     (case js_match jobDescription pattern of
        None \<Rightarrow> first_group patterns jobDescription placeholder
      | Some m \<Rightarrow>
          (case capture m of
             None \<Rightarrow> first_group patterns jobDescription placeholder
           | Some g \<Rightarrow> if g \<noteq> [] then trim g
                       else first_group patterns jobDescription placeholder))"

definition positionTitle_value :: "string \<Rightarrow> string" where
  "positionTitle_value jobDescription = first_group titlePatterns jobDescription ''Target Position''"

definition company_value :: "string \<Rightarrow> string" where
  "company_value jobDescription = first_group companyPatterns jobDescription ''Target Company''"

section \<open>The report (\<open>analyzeWithHuggingFace\<close>)\<close>

record report =
  matchScore :: int
  matchLevel :: string
  positionTitle :: string
  company :: string
  missingKeywords :: "string list"
  skillsFound :: "string list"
  improvements :: "string list"

definition analyzeWithHuggingFace :: "string \<Rightarrow> string \<Rightarrow> hf_outcome \<Rightarrow> report" where
  "analyzeWithHuggingFace resumeText jobDescription outcome =
     (let resumeKeywords = extractKeywords resumeText;
          jdKeywords = extractKeywords jobDescription
      in \<lparr>matchScore = matchScore_value resumeKeywords jdKeywords,
          matchLevel = matchLevel_value (matchScore_value resumeKeywords jdKeywords),
          positionTitle = positionTitle_value jobDescription,
          company = company_value jobDescription,
          missingKeywords = take 5 (missingKeywords_found resumeKeywords jdKeywords),
          skillsFound = displaySkills resumeKeywords jdKeywords,
          improvements = improvements_value outcome\<rparr>)"

section \<open>The first version of the analysis (\<open>server.js\<close>)\<close>

text \<open>
  The repository holds a second, earlier version of the same server. Its functions have
  the names of the ones above; here they carry the suffix \<open>_simple\<close>, after the
  comment \<open>Simple keyword extraction\<close> of the file.

  \<^verbatim>\<open>text.toLowerCase().replace(/[^\w\s]/g, ' ').split(/\s+/).filter(word => word.length > 3)\<close>
\<close>

definition replace_nonword :: "string \<Rightarrow> string" where
  "replace_nonword s = map (\<lambda>c. if is_word_char c \<or> is_space c then c else CHR '' '') s"

definition words_simple :: "string \<Rightarrow> string list" where
  "words_simple text =
     filter (\<lambda>word. length word > 3) (split_ws (replace_nonword (toLowerCase text)))"

text \<open>
  \<open>wordCount[word] = (wordCount[word] || 0) + 1\<close> on a plain object, kept as the list of
  its own properties in the order of their creation. Two words meet properties that
  every object inherits. For \<open>__proto__\<close> the value read is an object and the assignment
  of the resulting string is ignored, so the word never becomes a key. For
  \<open>constructor\<close> the value read is a function, so the value stored is a string that is
  no numeral, here \<open>NotANumber\<close>; adding 1 to it again gives such a string.
\<close>

datatype word_count = Count nat | NotANumber

fun count_word :: "(string \<times> word_count) list \<Rightarrow> string \<Rightarrow> (string \<times> word_count) list" where
  "count_word [] word = [(word, if word = ''constructor'' then NotANumber else Count 1)]"
| "count_word ((k, v) # props) word =
     (if k = word
      then (k, (case v of Count n \<Rightarrow> Count (n + 1) | NotANumber \<Rightarrow> NotANumber)) # props
      else (k, v) # count_word props word)"

definition wordCount :: "string list \<Rightarrow> (string \<times> word_count) list" where
  "wordCount words =
     foldl (\<lambda>obj word. if word = ''__proto__'' then obj else count_word obj word) [] words"

text \<open>
  The comparator \<open>(a, b) => b[1] - a[1]\<close>. With a value that is no number the
  difference is \<open>NaN\<close>, which the sort reads as 0. In that case the comparator need not
  be consistent, and the order of the sorted array is then the choice of the
  implementation; the model takes the order of the stable insertion. It matters only
  for texts with the word \<open>constructor\<close>.
\<close>

definition compareCounts :: "string \<times> word_count \<Rightarrow> string \<times> word_count \<Rightarrow> int" where
  "compareCounts a b =
     (case (snd a, snd b) of
        (Count x, Count y) \<Rightarrow> int y - int x
      | _ \<Rightarrow> 0)"

definition extractKeywords_simple :: "string \<Rightarrow> string list" where
  "extractKeywords_simple text =
     map fst (take 20 (sort_by compareCounts (Object_entries (wordCount (words_simple text)))))"

definition matchedSkills_simple :: "string list \<Rightarrow> string list \<Rightarrow> string list" where
  "matchedSkills_simple resumeKeywords jdKeywords =
     take 6 (filter (\<lambda>skill. skill \<in> set jdKeywords) resumeKeywords)"

definition missingKeywords_simple :: "string list \<Rightarrow> string list \<Rightarrow> string list" where
  "missingKeywords_simple resumeKeywords jdKeywords =
     take 5 (filter (\<lambda>skill. skill \<notin> set resumeKeywords) jdKeywords)"

text \<open>
  \<^verbatim>\<open>Math.min(Math.round((matchedSkills.length / Math.max(jdKeywords.length, 1)) * 100 + Math.random() * 10), 95)\<close>:
  the value of \<open>Math.random()\<close>, a double of the interval from 0 to 1, is a parameter.
\<close>

definition matchScore_simple :: "string list \<Rightarrow> string list \<Rightarrow> double \<Rightarrow> int" where
  "matchScore_simple resumeKeywords jdKeywords random =
     min (Math_round
            (js_add (js_mul (js_div (js_int (int (length (matchedSkills_simple resumeKeywords jdKeywords))))
                                    (js_int (int (max (length jdKeywords) 1))))
                            (js_int 100))
                    (js_mul random (js_int 10))))
         95"

definition matchLevel_simple :: "int \<Rightarrow> string" where
  "matchLevel_simple score =
     (if score \<ge> 80 then ''Strong Candidate Match''
      else if score \<ge> 60 then ''Good Candidate Match''
      else if score \<ge> 40 then ''Moderate Candidate Match''
      else ''Weak Candidate Match'')"

definition fallback_improvements_simple :: "string list" where
  "fallback_improvements_simple =
     [''Quantify your achievements with specific metrics and numbers'',
      ''Add more keywords from the job description to your skills section'',
      ''Highlight relevant experience that matches the job requirements'']"

definition improvements_simple :: "hf_outcome \<Rightarrow> string list" where
  "improvements_simple outcome =
     (case hf_try outcome of
        Inl hfError \<Rightarrow> fallback_improvements_simple
      | Inr None \<Rightarrow> fallback_improvements_simple
      | Inr (Some suggestions) \<Rightarrow> suggestions)"

text \<open>\<open>m ? m[1].trim() : placeholder\<close>; calling \<open>trim\<close> on \<open>undefined\<close> would throw.\<close>

definition group_or :: "mstate option \<Rightarrow> string \<Rightarrow> js_exception + string" where
  "group_or m placeholder =
     (case m of
        None \<Rightarrow> Inr placeholder
      | Some st \<Rightarrow> (case capture st of None \<Rightarrow> Inl TypeError | Some g \<Rightarrow> Inr (trim g)))"

definition analyzeWithHuggingFace_simple ::
  "string \<Rightarrow> string \<Rightarrow> double \<Rightarrow> hf_outcome \<Rightarrow> js_exception + report" where
  "analyzeWithHuggingFace_simple resumeText jobDescription random outcome =
     (let resumeKeywords = extractKeywords_simple resumeText;
          jdKeywords = extractKeywords_simple jobDescription
      in case group_or (js_match jobDescription title_label) ''Target Position'' of
           Inl e \<Rightarrow> Inl e
         | Inr title \<Rightarrow>
        (case group_or (js_match jobDescription company_label) ''Target Company'' of
           Inl e \<Rightarrow> Inl e
         | Inr companyName \<Rightarrow>
             Inr \<lparr>matchScore = matchScore_simple resumeKeywords jdKeywords random,
                  matchLevel = matchLevel_simple (matchScore_simple resumeKeywords jdKeywords random),
                  positionTitle = title,
                  company = companyName,
                  missingKeywords = take 4 (missingKeywords_simple resumeKeywords jdKeywords),
                  skillsFound = matchedSkills_simple resumeKeywords jdKeywords,
                  improvements = improvements_simple outcome\<rparr>))"

section \<open>Notions used in the statements\<close>

text \<open>
  The characters a normalised text is made of; the class \<open>[a-z0-9 .+#-]\<close> and the symbols
  \<open>+ # . -\<close> named by the specification; the two symbols the normalisation keeps; and
  the absence of two white-space characters in a row.
\<close>

definition norm_char :: "char \<Rightarrow> bool" where
  "norm_char c \<longleftrightarrow>
     is_lower c \<or> is_digit c \<or> c = CHR ''_'' \<or> c = CHR ''.'' \<or> c = CHR ''-'' \<or> c = CHR '' ''"

fun no_space_run :: "string \<Rightarrow> bool" where
  "no_space_run (c # d # cs) = (\<not> (is_space c \<and> is_space d) \<and> no_space_run (d # cs))"
| "no_space_run cs = True"

definition kept_symbol :: "char \<Rightarrow> bool" where
  "kept_symbol c \<longleftrightarrow> c = CHR ''.'' \<or> c = CHR ''-''"

definition claimed_class :: "char \<Rightarrow> bool" where
  "claimed_class c \<longleftrightarrow>
     is_lower c \<or> is_digit c \<or> c = CHR '' '' \<or> c = CHR ''.'' \<or> c = CHR ''+'' \<or> c = CHR ''#''
     \<or> c = CHR ''-''"

definition claimed_symbol :: "char \<Rightarrow> bool" where
  "claimed_symbol c \<longleftrightarrow> c = CHR ''+'' \<or> c = CHR ''#'' \<or> c = CHR ''.'' \<or> c = CHR ''-''"

text \<open>
  For the rules of the field extractor: the least number of characters a match of an
  expression consumes; expressions without a capturing group; and expressions every
  match of which closes the group around at least one character.
\<close>

primrec min_consumed :: "regex \<Rightarrow> nat" where
  "min_consumed Empty = 0"
| "min_consumed (Class P) = 1"
| "min_consumed (Seq r1 r2) = min_consumed r1 + min_consumed r2"
| "min_consumed (Alt r1 r2) = min (min_consumed r1) (min_consumed r2)"
| "min_consumed (Repeat lo hi r) = lo * min_consumed r"
| "min_consumed (Group r) = min_consumed r"
| "min_consumed Bol = 0"
| "min_consumed Eol = 0"

primrec group_free :: "regex \<Rightarrow> bool" where
  "group_free Empty = True"
| "group_free (Class P) = True"
| "group_free (Seq r1 r2) = (group_free r1 \<and> group_free r2)"
| "group_free (Alt r1 r2) = (group_free r1 \<and> group_free r2)"
| "group_free (Repeat lo hi r) = group_free r"
| "group_free (Group r) = False"
| "group_free Bol = True"
| "group_free Eol = True"

primrec sets_group :: "regex \<Rightarrow> bool" where
  "sets_group Empty = False"
| "sets_group (Class P) = False"
| "sets_group (Seq r1 r2) = (sets_group r2 \<or> (sets_group r1 \<and> group_free r2))"
| "sets_group (Alt r1 r2) = False"
| "sets_group (Repeat lo hi r) = False"
| "sets_group (Group r) = (0 < min_consumed r)"
| "sets_group Bol = False"
| "sets_group Eol = False"

text \<open>The first rule of a list that matches a text, with its match.\<close>

fun first_match :: "regex list \<Rightarrow> string \<Rightarrow> mstate option" where
  "first_match [] text = None"
| "first_match (pattern # patterns) text =
     (case js_match text pattern of
        None \<Rightarrow> first_match patterns text
      | Some m \<Rightarrow> Some m)"

text \<open>
  For the suggestion provider: the summary of a successful call, that is of a response
  with the flag \<open>ok\<close> whose body parses to a value with a string at
  \<open>[0].summary_text\<close>; and the sentence fragments of a summary that survive, those of
  trimmed length above 10.
\<close>

definition successful_summary :: "hf_outcome \<Rightarrow> string option" where
  "successful_summary outcome =
     (case outcome of
        Responded True (Some data) \<Rightarrow>
          (case js_index0 data of
             Inr first \<Rightarrow>
               (case optional_summary_text first of Some (JStr str) \<Rightarrow> Some str | _ \<Rightarrow> None)
           | Inl e \<Rightarrow> None)
      | _ \<Rightarrow> None)"

definition fragments :: "string \<Rightarrow> string list" where
  "fragments summary = filter (\<lambda>s. length (trim s) > 10) (split_on CHR ''.'' summary)"

text \<open>The title and the company of the first version, once its two rules are known not to throw.\<close>

definition title_simple :: "string \<Rightarrow> string" where
  "title_simple jobDescription = projr (group_or (js_match jobDescription title_label) ''Target Position'')"

definition company_simple :: "string \<Rightarrow> string" where
  "company_simple jobDescription = projr (group_or (js_match jobDescription company_label) ''Target Company'')"

text \<open>
  The rounding of the exact quotient, halves upwards, and the agreement of the score
  computed in doubles with it.
\<close>

definition round_half_up :: "rat \<Rightarrow> int" where
  "round_half_up x = \<lfloor>x + 1 / 2\<rfloor>"

definition pct_agrees :: "int \<Rightarrow> nat \<Rightarrow> nat \<Rightarrow> bool" where
  "pct_agrees factor b a \<longleftrightarrow>
     percentage a b factor = (2 * factor * int a + int b) div (2 * int b)"

definition row_agrees :: "int \<Rightarrow> nat \<Rightarrow> bool" where
  "row_agrees factor b \<longleftrightarrow> list_all (pct_agrees factor b) [0..<Suc b]"

section \<open>Properties of the normalisation\<close>

lemma code_less: "0 \<le> code c \<and> code c < 256"
proof -
  have "code c = int (of_char c)" unfolding code_def by (rule of_nat_of_char [symmetric])
  moreover have "(of_char c :: nat) < 256"
    using range_nat_of_char by (metis atLeastLessThan_iff rangeI)
  ultimately show ?thesis by simp
qed

lemma code_char_of: "0 \<le> n \<Longrightarrow> n < 256 \<Longrightarrow> code (char_of n) = n"
  by (simp add: code_def)

lemma code_literals [simp]:
  "code CHR ''_'' = 95" "code CHR ''.'' = 46" "code CHR ''-'' = 45" "code CHR '' '' = 32"
  "code CHR ''+'' = 43" "code CHR ''#'' = 35"
  by (simp_all add: code_def)

lemma code_inj: "code c = code d \<Longrightarrow> c = d"
  by (simp add: code_def)

lemma toLowerCase_char_code:
  "code (toLowerCase_char c) =
     (if is_upper c \<or> (192 \<le> code c \<and> code c \<le> 222 \<and> code c \<noteq> 215) then code c + 32 else code c)"
  using code_less [of c] by (auto simp: toLowerCase_char_def code_char_of is_upper_def)

lemma is_space_code: "is_space c \<Longrightarrow> c = CHR '' '' \<or> \<not> norm_char c"
  by (auto simp: is_space_def norm_char_def is_lower_def is_digit_def)

lemma replace_other_chars:
  assumes "c \<in> set (replace_other (toLowerCase t))"
  shows "norm_char c \<or> is_space c"
proof -
  define F where "F = (\<lambda>y. if is_word_char y \<or> is_space y \<or> y = CHR ''.'' \<or> y = CHR ''-''
                          then y else CHR '' '')"
  have "c \<in> set (map F (map toLowerCase_char t))"
    using assms by (simp add: replace_other_def toLowerCase_def F_def)
  then obtain x where c: "c = F (toLowerCase_char x)" by auto
  have nu: "\<not> is_upper (toLowerCase_char x)"
    using code_less [of x] by (auto simp: is_upper_def toLowerCase_char_code)
  show ?thesis
    using nu unfolding c F_def by (auto simp: norm_char_def is_word_char_def)
qed

lemma collapse_spaces_chars:
  "c \<in> set (collapse_spaces s) \<Longrightarrow> c = CHR '' '' \<or> (c \<in> set s \<and> \<not> is_space c)"
  by (induction s rule: collapse_spaces.induct) (auto split: if_splits dest: set_dropWhileD)

lemma normalize_chars: "c \<in> set (normalize t) \<Longrightarrow> norm_char c"
proof -
  assume "c \<in> set (normalize t)"
  then have "c = CHR '' '' \<or> (c \<in> set (replace_other (toLowerCase t)) \<and> \<not> is_space c)"
    unfolding normalize_def by (rule collapse_spaces_chars)
  then show ?thesis using replace_other_chars [of c t] by (auto simp: norm_char_def)
qed

lemma collapse_spaces_hd:
  "s \<noteq> [] \<Longrightarrow> \<not> is_space (hd s) \<Longrightarrow> collapse_spaces s \<noteq> [] \<and> \<not> is_space (hd (collapse_spaces s))"
  by (cases s) auto

lemma no_space_run_Cons:
  "no_space_run (c # cs) \<longleftrightarrow> (cs = [] \<or> (\<not> (is_space c \<and> is_space (hd cs)) \<and> no_space_run cs))"
  by (cases cs) auto

lemma collapse_spaces_no_run: "no_space_run (collapse_spaces s)"
proof (induction s rule: collapse_spaces.induct)
  case 1
  show ?case by simp
next
  case (2 c cs)
  show ?case
  proof (cases "is_space c")
    case True
    let ?d = "dropWhile is_space cs"
    have ih: "no_space_run (collapse_spaces ?d)" using 2 True by simp
    show ?thesis
    proof (cases "?d = []")
      case True
      have "collapse_spaces (c # cs) = CHR '' '' # collapse_spaces ?d"
        using \<open>is_space c\<close> by simp
      then show ?thesis unfolding True by simp
    next
      case False
      then have "\<not> is_space (hd ?d)" by (rule hd_dropWhile)
      with False have "collapse_spaces ?d \<noteq> [] \<and> \<not> is_space (hd (collapse_spaces ?d))"
        by (intro collapse_spaces_hd)
      with ih \<open>is_space c\<close> show ?thesis by (simp add: no_space_run_Cons)
    qed
  next
    case False
    with 2 show ?thesis by (simp add: no_space_run_Cons)
  qed
qed

lemma filter_collapse_spaces:
  "(\<And>c. P c \<Longrightarrow> \<not> is_space c) \<Longrightarrow> filter P (collapse_spaces s) = filter P s"
proof (induction s rule: collapse_spaces.induct)
  case 1
  show ?case by simp
next
  case (2 c cs)
  have np: "\<not> P CHR '' ''" using 2(3) [of "CHR '' ''"] by (auto simp: is_space_def)
  have dw: "filter P (dropWhile is_space cs) = filter P cs"
    using 2(3) by (induction cs) auto
  show ?case
  proof (cases "is_space c")
    case True
    then have "\<not> P c" using 2(3) by blast
    with True 2 np dw show ?thesis by simp
  next
    case False
    with 2 show ?thesis by simp
  qed
qed

lemma kept_symbol_toLowerCase_char: "kept_symbol (toLowerCase_char c) = kept_symbol c"
proof -
  have "code (toLowerCase_char c) = 46 \<longleftrightarrow> code c = 46" "code (toLowerCase_char c) = 45 \<longleftrightarrow> code c = 45"
    by (auto simp: toLowerCase_char_code is_upper_def)
  then show ?thesis
    unfolding kept_symbol_def by (metis code_inj code_literals(2,3))
qed

lemma toLowerCase_char_kept: "kept_symbol c \<Longrightarrow> toLowerCase_char c = c"
  by (auto simp: kept_symbol_def toLowerCase_char_def is_upper_def)

lemma filter_kept_normalize: "filter kept_symbol (normalize t) = filter kept_symbol t"
proof -
  have 1: "filter kept_symbol (collapse_spaces s) = filter kept_symbol s" for s
    by (rule filter_collapse_spaces) (auto simp: kept_symbol_def is_space_def)
  have 2: "filter kept_symbol (replace_other s) = filter kept_symbol s" for s
    by (induction s) (auto simp: replace_other_def kept_symbol_def)
  have 3: "filter kept_symbol (toLowerCase s) = filter kept_symbol s" for s
    by (induction s) (auto simp: toLowerCase_def kept_symbol_toLowerCase_char toLowerCase_char_kept)
  show ?thesis by (simp add: normalize_def 1 2 3)
qed


section \<open>Properties of the keyword extraction\<close>

lemma tw1: "set (takeWhile (\<lambda>c. \<not> is_space c) s) \<subseteq> set s \<and> (\<forall>c\<in>set (takeWhile (\<lambda>c. \<not> is_space c) s). \<not> is_space c)"
  using set_takeWhileD by fastforce

lemma sp1: "dropWhile (\<lambda>c. \<not> is_space c) s = [] \<Longrightarrow> split_ws s = [takeWhile (\<lambda>c. \<not> is_space c) s]"
  by (subst split_ws.simps) (simp add: Let_def)

lemma sp2: "dropWhile (\<lambda>c. \<not> is_space c) s \<noteq> [] \<Longrightarrow> split_ws s = takeWhile (\<lambda>c. \<not> is_space c) s # split_ws (dropWhile is_space (dropWhile (\<lambda>c. \<not> is_space c) s))"
  by (subst split_ws.simps) (simp only: Let_def if_False)


lemma split_ws_chars:
  "w \<in> set (split_ws s) \<Longrightarrow> set w \<subseteq> set s \<and> (\<forall>c\<in>set w. \<not> is_space c)"
proof (induction s arbitrary: w rule: split_ws.induct)
  case (1 s)
  let ?w = "takeWhile (\<lambda>c. \<not> is_space c) s"
  let ?rest = "dropWhile (\<lambda>c. \<not> is_space c) s"
  note tw = tw1 [of s]
  show ?case
  proof (cases "?rest = []")
    case True
    from sp1 [OF True] 1(2) have "w = ?w" by simp
    with tw show ?thesis by simp
  next
    case False
    note eq = sp2 [OF False]
    show ?thesis
    proof (cases "w = ?w")
      case True
      with tw show ?thesis by simp
    next
      case neq: False
      from 1(2) neq have "w \<in> set (split_ws (dropWhile is_space ?rest))"
        unfolding eq by simp
      from 1(1) [OF refl refl False this]
      have "set w \<subseteq> set (dropWhile is_space ?rest) \<and> (\<forall>c\<in>set w. \<not> is_space c)" .
      moreover have "set (dropWhile is_space ?rest) \<subseteq> set s"
        by (meson set_dropWhileD subsetI)
      ultimately show ?thesis by blast
    qed
  qed
qed

lemma set_foldl_set_add: "set (foldl set_add acc xs) = set acc \<union> set xs"
  by (induction xs arbitrary: acc) (auto simp: set_add_def)

lemma set_new_Set: "set (new_Set xs) = set xs"
  by (simp add: new_Set_def set_foldl_set_add)

lemma set_insert_by: "set (insert_by cmp x ys) = insert x (set ys)"
  by (induction ys) auto

lemma set_sort_by: "set (sort_by cmp xs) = set xs"
  by (induction xs) (auto simp: sort_by_def set_insert_by)

lemma set_Object_entries: "set (Object_entries props) = set props"
  by (auto simp: Object_entries_def)

lemma length_extractKeywords: "length (extractKeywords t) \<le> 30"
  by (simp add: extractKeywords_def Let_def)

lemma extractKeywords_subset: "set (extractKeywords t) \<subseteq> set (allTerms (normalize t))"
proof -
  let ?xs = "sort_by compareTerms (Object_entries (termCount (normalize t)))"
  have "set (extractKeywords t) \<subseteq> fst ` set ?xs"
    using set_take_subset [of 30 ?xs] by (auto simp: extractKeywords_def Let_def)
  also have "fst ` set ?xs = set (allTerms (normalize t))"
    by (simp add: set_sort_by set_Object_entries termCount_def image_image)
  finally show ?thesis .
qed

lemma allTerms_cases:
  assumes "k \<in> set (allTerms n)"
  shows "(k \<in> set technicalTerms \<and> CHR '' '' \<in> set k \<and> str_includes n k)
         \<or> (k \<in> set (split_ws n) \<and> keepWord k)"
  using assms by (auto simp: allTerms_def set_new_Set multiWordTerms_def singleWords_def)

lemma multiWord_list:
  "filter (\<lambda>k. CHR '' '' \<in> set k) technicalTerms =
     [''machine learning'', ''deep learning'', ''computer vision'', ''data science'',
      ''project management'', ''stakeholder management'']"
  by (simp add: technicalTerms_def)

lemma multiWord_chars:
  assumes "k \<in> set technicalTerms" and "CHR '' '' \<in> set k"
  shows "\<forall>c\<in>set k. norm_char c"
proof -
  from assms have "k \<in> set (filter (\<lambda>k. CHR '' '' \<in> set k) technicalTerms)" by simp
  then have "k \<in> set [''machine learning'', ''deep learning'', ''computer vision'', ''data science'',
      ''project management'', ''stakeholder management'']"
    by (simp only: multiWord_list)
  moreover have "\<forall>k\<in>set [''machine learning'', ''deep learning'', ''computer vision'',
      ''data science'', ''project management'', ''stakeholder management'']. \<forall>c\<in>set k. norm_char c"
    by (simp add: norm_char_def is_lower_def is_digit_def code_def)
  ultimately show ?thesis by blast
qed

lemma allTerms_chars:
  assumes "k \<in> set (allTerms (normalize t))" and "c \<in> set k"
  shows "norm_char c"
  using allTerms_cases [OF assms(1)]
proof
  assume "k \<in> set technicalTerms \<and> CHR '' '' \<in> set k \<and> str_includes (normalize t) k"
  with multiWord_chars [of k] assms(2) show ?thesis by blast
next
  assume "k \<in> set (split_ws (normalize t)) \<and> keepWord k"
  then have "set k \<subseteq> set (normalize t)" using split_ws_chars by blast
  with assms(2) show ?thesis using normalize_chars by blast
qed

lemma norm_char_toLowerCase: "norm_char c \<Longrightarrow> toLowerCase_char c = c"
  by (auto simp: norm_char_def toLowerCase_char_def is_upper_def is_lower_def is_digit_def)

lemma extractKeywords_lower:
  assumes "k \<in> set (extractKeywords t)"
  shows "toLowerCase k = k"
proof -
  from assms have "k \<in> set (allTerms (normalize t))" using extractKeywords_subset by blast
  then have "\<forall>c\<in>set k. toLowerCase_char c = c"
    using allTerms_chars norm_char_toLowerCase by blast
  then show ?thesis unfolding toLowerCase_def by (simp add: map_idI)
qed

lemma filter_tech_extractKeywords:
  "filter (\<lambda>k. isTechnicalTerm (toLowerCase k)) (extractKeywords t) = filter isTechnicalTerm (extractKeywords t)"
  by (rule filter_cong) (simp_all add: extractKeywords_lower)


section \<open>Properties of the matcher\<close>

lemma repeat_matches_behind:
  assumes f: "\<And>s s'. s' \<in> set (f s) \<Longrightarrow> length (behind s) + k \<le> length (behind s')"
  shows "s' \<in> set (repeat_matches f lo n s) \<Longrightarrow> length (behind s) + lo * k \<le> length (behind s')"
proof (induction n arbitrary: lo s)
  case 0
  then show ?case by (auto split: if_splits)
next
  case (Suc n)
  from Suc.prems consider
    (more) s1 where "s1 \<in> set (f s)" "s' \<in> set (repeat_matches f (lo - 1) n s1)"
    | (stop) "lo = 0" "s' = s"
    by (auto split: if_splits)
  then show ?case
  proof cases
    case more
    from f [OF more(1)] have 1: "length (behind s) + k \<le> length (behind s1)" .
    from Suc.IH [OF more(2)] have 2: "length (behind s1) + (lo - 1) * k \<le> length (behind s')" .
    have "lo * k \<le> k + (lo - 1) * k" by (cases lo) auto
    with 1 2 show ?thesis by linarith
  next
    case stop
    then show ?thesis by simp
  qed
qed

lemma matches_behind:
  "s' \<in> set (matches r s) \<Longrightarrow> length (behind s) + min_consumed r \<le> length (behind s')"
proof (induction r arbitrary: s s')
  case (Class P)
  then show ?case by (auto split: list.splits if_splits)
next
  case (Seq r1 r2)
  from Seq.prems obtain s1 where "s1 \<in> set (matches r1 s)" "s' \<in> set (matches r2 s1)" by auto
  with Seq.IH show ?case by fastforce
next
  case (Alt r1 r2)
  then show ?case by fastforce
next
  case (Repeat lo hi r)
  from Repeat.prems
  have "s' \<in> set (repeat_matches (matches r) lo (case hi of None \<Rightarrow> length (rest s) | Some h \<Rightarrow> h) s)"
    by simp
  from repeat_matches_behind [of "matches r" "min_consumed r", OF Repeat.IH this]
  show ?case by simp
next
  case (Group r)
  then show ?case by auto
qed (auto split: if_splits)

lemma repeat_matches_capture:
  assumes f: "\<And>s s'. s' \<in> set (f s) \<Longrightarrow> capture s' = capture s"
  shows "s' \<in> set (repeat_matches f lo n s) \<Longrightarrow> capture s' = capture s"
proof (induction n arbitrary: lo s)
  case 0
  then show ?case by (auto split: if_splits)
next
  case (Suc n)
  from Suc.prems consider
    (more) s1 where "s1 \<in> set (f s)" "s' \<in> set (repeat_matches f (lo - 1) n s1)"
    | (stop) "lo = 0" "s' = s"
    by (auto split: if_splits)
  then show ?case
  proof cases
    case more
    with f Suc.IH show ?thesis by metis
  next
    case stop
    then show ?thesis by simp
  qed
qed

lemma matches_capture:
  "group_free r \<Longrightarrow> s' \<in> set (matches r s) \<Longrightarrow> capture s' = capture s"
proof (induction r arbitrary: s s')
  case (Class P)
  then show ?case by (auto split: list.splits if_splits)
next
  case (Seq r1 r2)
  from Seq.prems obtain s1 where "s1 \<in> set (matches r1 s)" "s' \<in> set (matches r2 s1)" by auto
  with Seq show ?case by (metis group_free.simps(3))
next
  case (Alt r1 r2)
  then show ?case by auto
next
  case (Repeat lo hi r)
  from Repeat.prems
  have "s' \<in> set (repeat_matches (matches r) lo (case hi of None \<Rightarrow> length (rest s) | Some h \<Rightarrow> h) s)"
    by simp
  moreover have "\<And>s s'. s' \<in> set (matches r s) \<Longrightarrow> capture s' = capture s"
    using Repeat by simp
  ultimately show ?case by (rule repeat_matches_capture [rotated])
qed (auto split: if_splits)

lemma matches_sets_group:
  "sets_group r \<Longrightarrow> s' \<in> set (matches r s) \<Longrightarrow> \<exists>g. capture s' = Some g \<and> g \<noteq> []"
proof (induction r arbitrary: s s')
  case (Seq r1 r2)
  from Seq.prems obtain s1 where s1: "s1 \<in> set (matches r1 s)" "s' \<in> set (matches r2 s1)" by auto
  show ?case
  proof (cases "sets_group r2")
    case True
    with Seq.IH(2) s1 show ?thesis by blast
  next
    case False
    with Seq.prems have "sets_group r1" "group_free r2" by auto
    with Seq.IH(1) s1 matches_capture [of r2 s' s1] show ?thesis by metis
  qed
next
  case (Group r)
  from Group.prems obtain s1 where s1: "s1 \<in> set (matches r s)"
    and s': "s' = s1\<lparr>capture := Some (rev (take (length (behind s1) - length (behind s)) (behind s1)))\<rparr>"
    by auto
  from matches_behind [OF s1] Group.prems have "length (behind s) < length (behind s1)" by simp
  then have "take (length (behind s1) - length (behind s)) (behind s1) \<noteq> []" by auto
  with s' show ?case by simp
qed auto

lemma search_matches:
  "search r bef cs = Some m \<Longrightarrow>
     \<exists>b c. m \<in> set (matches r \<lparr>behind = b, rest = c, capture = None\<rparr>)"
proof (induction cs arbitrary: bef)
  case Nil
  then have "matches r \<lparr>behind = bef, rest = [], capture = None\<rparr> \<noteq> []
      \<and> m = hd (matches r \<lparr>behind = bef, rest = [], capture = None\<rparr>)"
    by (auto split: list.splits)
  then have "m \<in> set (matches r \<lparr>behind = bef, rest = [], capture = None\<rparr>)" by simp
  then show ?case by blast
next
  case (Cons c cs)
  show ?case
  proof (cases "matches r \<lparr>behind = bef, rest = c # cs, capture = None\<rparr>")
    case Nil
    with Cons.prems have "search r (c # bef) cs = Some m" by simp
    with Cons.IH show ?thesis by blast
  next
    case (Cons m' ms)
    with Cons.prems have "m = m'" by simp
    with Cons have "m \<in> set (matches r \<lparr>behind = bef, rest = c # cs, capture = None\<rparr>)"
      by simp
    then show ?thesis by blast
  qed
qed

lemma js_match_group:
  assumes "sets_group r" and "js_match text r = Some m"
  shows "\<exists>g. capture m = Some g \<and> g \<noteq> []"
  using assms search_matches matches_sets_group unfolding js_match_def by blast

lemma min_consumed_lit_i: "min_consumed (lit_i str) = length str"
  by (induction str) (auto simp: lit_i_def char_i_def)

lemma group_free_lit_i: "group_free (lit_i str)"
  by (induction str) (auto simp: lit_i_def char_i_def)

lemma rules_set_group:
  "sets_group title_label" "sets_group title_hiring" "sets_group title_line"
  "sets_group company_label" "sets_group company_join"
  by (simp_all add: title_label_def title_hiring_def title_line_def company_label_def
        company_join_def field_char_def space_class_def char_lit_def capitalized_word_def
        group_free_lit_i)

section \<open>Properties of the first version\<close>

lemma group_or_total:
  assumes "sets_group r"
  shows "group_or (js_match text r) placeholder = Inr (projr (group_or (js_match text r) placeholder))"
proof (cases "js_match text r")
  case None
  then show ?thesis by (simp add: group_or_def)
next
  case (Some m)
  with js_match_group [OF assms Some] show ?thesis by (auto simp: group_or_def)
qed

lemma simple_report:
  "analyzeWithHuggingFace_simple r j random outcome =
     Inr \<lparr>matchScore = matchScore_simple (extractKeywords_simple r) (extractKeywords_simple j) random,
          matchLevel = matchLevel_simple
            (matchScore_simple (extractKeywords_simple r) (extractKeywords_simple j) random),
          positionTitle = title_simple j,
          company = company_simple j,
          missingKeywords =
            take 4 (missingKeywords_simple (extractKeywords_simple r) (extractKeywords_simple j)),
          skillsFound = matchedSkills_simple (extractKeywords_simple r) (extractKeywords_simple j),
          improvements = improvements_simple outcome\<rparr>"
proof -
  note t = group_or_total [OF rules_set_group(1), of j "''Target Position''"]
  note c = group_or_total [OF rules_set_group(4), of j "''Target Company''"]
  show ?thesis
    unfolding analyzeWithHuggingFace_simple_def Let_def title_simple_def company_simple_def
    by (subst t, subst c) simp
qed

lemma simple_python_java_zero:
  "analyzeWithHuggingFace_simple ''python'' ''java'' (0, 0) FetchRejected =
     Inr \<lparr>matchScore = 0, matchLevel = ''Weak Candidate Match'',
          positionTitle = ''Target Position'', company = ''Target Company'',
          missingKeywords = [''java''], skillsFound = [],
          improvements = fallback_improvements_simple\<rparr>"
  by code_simp


lemma keywords_simple_samples:
  "extractKeywords_simple ''python'' = [''python'']"
  "extractKeywords_simple ''java'' = [''java'']"
  "extractKeywords_simple ''constructor'' = [''constructor'']"
  "extractKeywords_simple ''data data constructor 2024 __proto__'' = [''data'', ''2024'', ''constructor'']"
  by code_simp+

section \<open>Evaluation at sample inputs\<close>

lemma report_fields:
  "matchScore (analyzeWithHuggingFace r j outcome)
     = matchScore_value (extractKeywords r) (extractKeywords j)"
  "matchLevel (analyzeWithHuggingFace r j outcome)
     = matchLevel_value (matchScore_value (extractKeywords r) (extractKeywords j))"
  "positionTitle (analyzeWithHuggingFace r j outcome) = positionTitle_value j"
  "company (analyzeWithHuggingFace r j outcome) = company_value j"
  "missingKeywords (analyzeWithHuggingFace r j outcome)
     = take 5 (missingKeywords_found (extractKeywords r) (extractKeywords j))"
  "skillsFound (analyzeWithHuggingFace r j outcome)
     = displaySkills (extractKeywords r) (extractKeywords j)"
  "improvements (analyzeWithHuggingFace r j outcome) = improvements_value outcome"
  by (simp_all add: analyzeWithHuggingFace_def Let_def)

lemma keywords_aws: "extractKeywords ''aws'' = [''aws'']"
  by code_simp

lemma keywords_aws_sql: "extractKeywords ''aws sql'' = [''aws'', ''sql'']"
  by code_simp

lemma keywords_sql: "extractKeywords ''sql'' = [''sql'']"
  by code_simp

lemma missing_aws_sql: "missingKeywords_found [''aws''] [''aws'', ''sql''] = [''sql'']"
  by code_simp

lemma matched_aws_sql: "matchedSkills [''aws''] [''aws'', ''sql''] = [''aws'']"
  by code_simp

lemma matched_aws_only_sql: "matchedSkills [''aws''] [''sql''] = []"
  by code_simp

lemma score_aws_sql: "matchScore_value [''aws''] [''aws'', ''sql''] = 50"
  by code_simp

lemma technical_samples:
  "isTechnicalTerm ''aws''" "isTechnicalTerm ''sql''" "\<not> isTechnicalTerm ''python3''"
  "\<not> isStopWord ''python3''" "isStopWord ''the''" "isTechnicalTerm ''python''"
  "isTechnicalTerm ''java''"
  by code_simp+

lemma subseq_take: "subseq (take n xs) xs"
  by (metis append_take_drop_id list_emb_append2 subseq_order.order_refl append_Nil2
        list_emb_append_mono list_emb_Nil)

lemma simple_fields:
  "matchScore (projr (analyzeWithHuggingFace_simple r j random outcome))
     = matchScore_simple (extractKeywords_simple r) (extractKeywords_simple j) random"
  "matchLevel (projr (analyzeWithHuggingFace_simple r j random outcome))
     = matchLevel_simple
         (matchScore_simple (extractKeywords_simple r) (extractKeywords_simple j) random)"
  "positionTitle (projr (analyzeWithHuggingFace_simple r j random outcome)) = title_simple j"
  "company (projr (analyzeWithHuggingFace_simple r j random outcome)) = company_simple j"
  "missingKeywords (projr (analyzeWithHuggingFace_simple r j random outcome))
     = take 4 (missingKeywords_simple (extractKeywords_simple r) (extractKeywords_simple j))"
  "skillsFound (projr (analyzeWithHuggingFace_simple r j random outcome))
     = matchedSkills_simple (extractKeywords_simple r) (extractKeywords_simple j)"
  "improvements (projr (analyzeWithHuggingFace_simple r j random outcome))
     = improvements_simple outcome"
  by (simp_all add: simple_report)

lemma simple_returns:
  "analyzeWithHuggingFace_simple r j random outcome
     = Inr (projr (analyzeWithHuggingFace_simple r j random outcome))"
  by (simp add: simple_report)

subsection \<open>The percentage in doubles\<close>

text \<open>
  For every quotient of at most 30 by at most 30 the product with 100, computed in
  doubles and rounded by \<open>Math.round\<close>, is the exact quotient rounded halves upwards.
\<close>

lemma percentage_100_row_1: "row_agrees 100 1" by code_simp
lemma percentage_100_row_2: "row_agrees 100 2" by code_simp
lemma percentage_100_row_3: "row_agrees 100 3" by code_simp
lemma percentage_100_row_4: "row_agrees 100 4" by code_simp
lemma percentage_100_row_5: "row_agrees 100 5" by code_simp
lemma percentage_100_row_6: "row_agrees 100 6" by code_simp
lemma percentage_100_row_7: "row_agrees 100 7" by code_simp
lemma percentage_100_row_8: "row_agrees 100 8" by code_simp
lemma percentage_100_row_9: "row_agrees 100 9" by code_simp
lemma percentage_100_row_10: "row_agrees 100 10" by code_simp
lemma percentage_100_row_11: "row_agrees 100 11" by code_simp
lemma percentage_100_row_12: "row_agrees 100 12" by code_simp
lemma percentage_100_row_13: "row_agrees 100 13" by code_simp
lemma percentage_100_row_14: "row_agrees 100 14" by code_simp
lemma percentage_100_row_15: "row_agrees 100 15" by code_simp
lemma percentage_100_row_16: "row_agrees 100 16" by code_simp
lemma percentage_100_row_17: "row_agrees 100 17" by code_simp
lemma percentage_100_row_18: "row_agrees 100 18" by code_simp
lemma percentage_100_row_19: "row_agrees 100 19" by code_simp
lemma percentage_100_row_20: "row_agrees 100 20" by code_simp
lemma percentage_100_row_21: "row_agrees 100 21" by code_simp
lemma percentage_100_row_22: "row_agrees 100 22" by code_simp
lemma percentage_100_row_23: "row_agrees 100 23" by code_simp
lemma percentage_100_row_24: "row_agrees 100 24" by code_simp
lemma percentage_100_row_25: "row_agrees 100 25" by code_simp
lemma percentage_100_row_26: "row_agrees 100 26" by code_simp
lemma percentage_100_row_27: "row_agrees 100 27" by code_simp
lemma percentage_100_row_28: "row_agrees 100 28" by code_simp
lemma percentage_100_row_29: "row_agrees 100 29" by code_simp
lemma percentage_100_row_30: "row_agrees 100 30" by code_simp

lemmas percentage_100_rows = percentage_100_row_1 percentage_100_row_2 percentage_100_row_3 percentage_100_row_4 percentage_100_row_5 percentage_100_row_6 percentage_100_row_7 percentage_100_row_8 percentage_100_row_9 percentage_100_row_10 percentage_100_row_11 percentage_100_row_12 percentage_100_row_13 percentage_100_row_14 percentage_100_row_15 percentage_100_row_16 percentage_100_row_17 percentage_100_row_18 percentage_100_row_19 percentage_100_row_20 percentage_100_row_21 percentage_100_row_22 percentage_100_row_23 percentage_100_row_24 percentage_100_row_25 percentage_100_row_26 percentage_100_row_27 percentage_100_row_28 percentage_100_row_29 percentage_100_row_30

lemma upto_30: "[1..<31] = [1, 2, 3, 4, 5, 6, 7, 8, 9, 10, 11, 12, 13, 14, 15, 16, 17, 18, 19, 20, 21, 22, 23, 24, 25, 26, 27, 28, 29, 30 :: nat]"
  by code_simp

lemma percentage_100_all: "list_all (row_agrees 100) [1..<31]"
  unfolding upto_30 by (simp only: list.pred_inject percentage_100_rows simp_thms)

lemma percentage_100:
  assumes "0 < b" "b \<le> 30" "a \<le> b"
  shows "percentage a b 100 = (200 * int a + int b) div (2 * int b)"
proof -
  from assms have "b \<in> set [1..<31]" by simp
  with percentage_100_all have "row_agrees 100 b" unfolding list_all_iff by blast
  moreover from assms have "a \<in> set [0..<Suc b]" by auto
  ultimately have "pct_agrees 100 b a" unfolding row_agrees_def list_all_iff by blast
  then show ?thesis by (simp add: pct_agrees_def)
qed

lemma round_half_up_div:
  assumes "0 < b"
  shows "round_half_up (of_int f * of_nat a / of_nat b) = (2 * f * int a + int b) div (2 * int b)"
proof -
  from assms have "(of_int f * of_nat a / of_nat b + 1 / 2 :: rat)
      = of_int (2 * f * int a + int b) / of_int (2 * int b)"
    by (simp add: field_simps)
  then show ?thesis unfolding round_half_up_def by (simp only: floor_divide_of_int_eq)
qed

lemma length_filter_filter_le: "length (filter P (filter Q xs)) \<le> length (filter P xs)"
  by (induction xs) auto

section \<open>The claims\<close>

subsection \<open>Normalisation\<close>

lemma replace_nonword_chars:
  assumes "c \<in> set (replace_nonword (toLowerCase t))"
  shows "is_lower c \<or> is_digit c \<or> c = CHR ''_'' \<or> is_space c"
proof -
  define F where "F = (\<lambda>y. if is_word_char y \<or> is_space y then y else CHR '' '')"
  have "c \<in> set (map F (map toLowerCase_char t))"
    using assms by (simp add: replace_nonword_def toLowerCase_def F_def)
  then obtain x where c: "c = F (toLowerCase_char x)" by auto
  have nu: "\<not> is_upper (toLowerCase_char x)"
    using code_less [of x] by (auto simp: is_upper_def toLowerCase_char_code)
  show ?thesis
    using nu unfolding c F_def by (auto simp: is_word_char_def is_space_def)
qed

lemma toLowerCase_char_space: "is_space c \<Longrightarrow> toLowerCase_char c = c"
  by (auto simp: is_space_def toLowerCase_char_def is_upper_def)

lemma replace_nonword_space:
  assumes "i < length t" and "is_space (t ! i)"
  shows "replace_nonword (toLowerCase t) ! i = t ! i"
  using assms by (simp add: replace_nonword_def toLowerCase_def toLowerCase_char_space)

text \<open>
  Claim C2, as stated, fails on both versions. In the analysis with the term catalog,
  at the text \<open>C++ a_b\<close>: the underscore is a word character and stays in the output
  although it lies outside \<open>[a-z0-9 .+#-]\<close>, and both plus signs are replaced. In the
  first version (\<open>server.js\<close>), at the text \<open>Node.js  a-b\<close>: the period and the hyphen
  are replaced and the two spaces in a row stay.
\<close>

theorem normalize_counterexample:
  "CHR ''_'' \<in> set (normalize ''C++ a_b'') \<and> \<not> claimed_class CHR ''_''
   \<and> filter claimed_symbol ''C++ a_b'' = ''++''
   \<and> filter claimed_symbol (normalize ''C++ a_b'') = []
   \<and> replace_nonword (toLowerCase ''Node.js  a-b'') = ''node js  a b''
   \<and> \<not> no_space_run ''node js  a b''"
  by code_simp

text \<open>
  Claim C2, amended. In the analysis with the term catalog, for every input string
  the output of \<open>normalize\<close> contains no character outside \<open>[a-z0-9_ .+#-]\<close>, keeps every
  occurrence of the period and of the hyphen of the input, in their order, and
  contains no two white-space characters in a row. In the first version
  (\<open>server.js\<close>), the step \<open>toLowerCase().replace(/[^\w\s]/g, ' ')\<close> yields only
  characters of \<open>[a-z0-9_]\<close> and white space, so it keeps none of \<open>+ # . -\<close>, and it
  leaves every white-space character of the input in its place, collapsing no run.
\<close>

theorem normalize_output:
  "(\<forall>c\<in>set (normalize t). claimed_class c \<or> c = CHR ''_'')
   \<and> filter kept_symbol (normalize t) = filter kept_symbol t
   \<and> no_space_run (normalize t)
   \<and> (\<forall>c\<in>set (replace_nonword (toLowerCase t)).
         is_lower c \<or> is_digit c \<or> c = CHR ''_'' \<or> is_space c)
   \<and> filter claimed_symbol (replace_nonword (toLowerCase t)) = []
   \<and> length (replace_nonword (toLowerCase t)) = length t
   \<and> (\<forall>i<length t. is_space (t ! i) \<longrightarrow> replace_nonword (toLowerCase t) ! i = t ! i)"
proof -
  have "\<forall>c\<in>set (normalize t). claimed_class c \<or> c = CHR ''_''"
    using normalize_chars by (auto simp: claimed_class_def norm_char_def)
  moreover have "no_space_run (normalize t)"
    unfolding normalize_def by (rule collapse_spaces_no_run)
  moreover have cls: "\<forall>c\<in>set (replace_nonword (toLowerCase t)).
         is_lower c \<or> is_digit c \<or> c = CHR ''_'' \<or> is_space c"
    using replace_nonword_chars by blast
  moreover have "filter claimed_symbol (replace_nonword (toLowerCase t)) = []"
  proof -
    have "\<not> claimed_symbol c" if "is_lower c \<or> is_digit c \<or> c = CHR ''_'' \<or> is_space c" for c
      using that by (auto simp: claimed_symbol_def is_lower_def is_digit_def is_space_def)
    with cls show ?thesis by (auto simp: filter_empty_conv)
  qed
  moreover have "length (replace_nonword (toLowerCase t)) = length t"
    by (simp add: replace_nonword_def toLowerCase_def)
  moreover have "\<forall>i<length t. is_space (t ! i) \<longrightarrow> replace_nonword (toLowerCase t) ! i = t ! i"
    using replace_nonword_space by blast
  ultimately show ?thesis using filter_kept_normalize by blast
qed

theorem normalize_output_witness:
  "CHR ''.'' \<in> set (normalize ''Node.js  v2'') \<and> claimed_class CHR ''.''
   \<and> filter kept_symbol (normalize ''Node.js  v2'') = ''.''
   \<and> no_space_run (normalize ''Node.js  v2'')
   \<and> CHR ''n'' \<in> set (replace_nonword (toLowerCase ''Node.js  v2'')) \<and> is_lower CHR ''n''
   \<and> is_space (''Node.js  v2'' ! 7)
   \<and> replace_nonword (toLowerCase ''Node.js  v2'') ! 7 = CHR '' ''"
proof -
  have m: "CHR ''.'' \<in> set (normalize ''Node.js  v2'')"
    and e: "filter kept_symbol ''Node.js  v2'' = ''.''"
    and n: "CHR ''n'' \<in> set (replace_nonword (toLowerCase ''Node.js  v2''))"
    and l: "is_lower CHR ''n''"
    and s: "is_space (''Node.js  v2'' ! 7)"
    and v: "''Node.js  v2'' ! 7 = CHR '' ''"
    by code_simp+
  note th = normalize_output [of "''Node.js  v2''"]
  from th have a: "\<forall>c\<in>set (normalize ''Node.js  v2''). claimed_class c \<or> c = CHR ''_''"
    and b: "filter kept_symbol (normalize ''Node.js  v2'') = filter kept_symbol ''Node.js  v2''"
    and c: "no_space_run (normalize ''Node.js  v2'')"
    and d: "\<forall>i<length ''Node.js  v2''. is_space (''Node.js  v2'' ! i) \<longrightarrow>
              replace_nonword (toLowerCase ''Node.js  v2'') ! i = ''Node.js  v2'' ! i"
    by blast+
  from a m have 1: "claimed_class CHR ''.''" by auto
  from b e have 2: "filter kept_symbol (normalize ''Node.js  v2'') = ''.''" by (simp only:)
  have "7 < length ''Node.js  v2''" by simp
  with d s have "replace_nonword (toLowerCase ''Node.js  v2'') ! 7 = ''Node.js  v2'' ! 7" by blast
  with v have 5: "replace_nonword (toLowerCase ''Node.js  v2'') ! 7 = CHR '' ''" by (simp only:)
  from m n l s c 1 2 5 show ?thesis by blast
qed

subsection \<open>Missing keywords\<close>

text \<open>
  Claim C3: for the keyword lists of any two texts, the reported \<open>missingKeywords\<close>
  holds no term whose lower-case form is among the lower-cased resume keywords, every
  element of it is in the technical-term catalog, it keeps the order of the
  job-description keywords, and it has at most five elements, being the first five of
  a list already cut to six.
\<close>

theorem missingKeywords_properties:
  "(\<forall>m\<in>set (missingKeywords (analyzeWithHuggingFace r j outcome)).
       toLowerCase m \<notin> set (map toLowerCase (extractKeywords r)))
   \<and> (\<forall>m\<in>set (missingKeywords (analyzeWithHuggingFace r j outcome)). isTechnicalTerm m)
   \<and> subseq (missingKeywords (analyzeWithHuggingFace r j outcome)) (extractKeywords j)
   \<and> missingKeywords (analyzeWithHuggingFace r j outcome)
       = take 5 (missingKeywords_found (extractKeywords r) (extractKeywords j))
   \<and> length (missingKeywords_found (extractKeywords r) (extractKeywords j)) \<le> 6
   \<and> length (missingKeywords (analyzeWithHuggingFace r j outcome)) \<le> 5"
proof -
  let ?rk = "extractKeywords r" and ?jk = "extractKeywords j"
  let ?P = "\<lambda>k. \<not> resumeSet_has ?rk (toLowerCase k) \<and> isTechnicalTerm (toLowerCase k)"
  let ?ms = "missingKeywords (analyzeWithHuggingFace r j outcome)"
  have ms: "?ms = take 5 (take 6 (filter ?P ?jk))"
    by (simp add: report_fields missingKeywords_found_def)
  have sub: "set ?ms \<subseteq> set (filter ?P ?jk)"
    unfolding ms by (meson set_take_subset subset_trans)
  have a: "\<forall>m\<in>set ?ms. toLowerCase m \<notin> set (map toLowerCase ?rk)"
    using sub by (auto simp: resumeSet_has_def)
  have b: "\<forall>m\<in>set ?ms. isTechnicalTerm m"
  proof
    fix m assume "m \<in> set ?ms"
    with sub have "m \<in> set ?jk" "isTechnicalTerm (toLowerCase m)" by auto
    then show "isTechnicalTerm m" by (simp add: extractKeywords_lower)
  qed
  have c: "subseq ?ms ?jk"
    unfolding ms
    by (meson subseq_take subseq_filter_left subseq_order.order_trans)
  have d: "?ms = take 5 (missingKeywords_found ?rk ?jk)"
    by (simp add: ms missingKeywords_found_def)
  have e: "length (missingKeywords_found ?rk ?jk) \<le> 6"
    by (simp add: missingKeywords_found_def)
  have f: "length ?ms \<le> 5"
    unfolding ms by simp
  from a b c d e f show ?thesis by blast
qed

theorem missingKeywords_properties_witness:
  "missingKeywords (analyzeWithHuggingFace ''aws'' ''aws sql'' FetchRejected) = [''sql'']
   \<and> toLowerCase ''sql'' \<notin> set (map toLowerCase (extractKeywords ''aws''))
   \<and> isTechnicalTerm ''sql''
   \<and> subseq [''sql''] (extractKeywords ''aws sql'')"
proof -
  have m: "missingKeywords (analyzeWithHuggingFace ''aws'' ''aws sql'' FetchRejected) = [''sql'']"
    by (simp add: report_fields keywords_aws keywords_aws_sql missing_aws_sql)
  note th = missingKeywords_properties [of "''aws''" "''aws sql''" FetchRejected, unfolded m]
  from th have a: "\<forall>m\<in>set [''sql'']. toLowerCase m \<notin> set (map toLowerCase (extractKeywords ''aws''))"
    by (rule conjunct1)
  from th have b: "\<forall>m\<in>set [''sql'']. isTechnicalTerm m"
    by blast
  from th have c: "subseq [''sql''] (extractKeywords ''aws sql'')"
    by blast
  from a b c m show ?thesis by simp
qed

subsection \<open>Match level\<close>

text \<open>
  Claim C5, as stated, fails on the first version of the analysis: for the resume
  \<open>python\<close>, the job description \<open>java\<close> and the random value 0 it computes the score 0
  and the level \<open>Weak Candidate Match\<close>, not \<open>Potential Candidate Match\<close>.
\<close>

theorem matchLevel_counterexample:
  "analyzeWithHuggingFace_simple ''python'' ''java'' (0, 0) FetchRejected =
     Inr \<lparr>matchScore = 0, matchLevel = ''Weak Candidate Match'',
          positionTitle = ''Target Position'', company = ''Target Company'',
          missingKeywords = [''java''], skillsFound = [],
          improvements = fallback_improvements_simple\<rparr>
   \<and> ''Weak Candidate Match'' \<noteq> ''Potential Candidate Match''"
  using simple_python_java_zero by simp

text \<open>
  Claim C5, amended: for every computed score, \<open>matchLevel\<close> is the classification in
  four buckets with the bounds 80, 60 and 40; the bucket below 40 is named
  \<open>Potential Candidate Match\<close> by the analysis with the term catalog and
  \<open>Weak Candidate Match\<close> by the first version in \<open>server.js\<close>, which returns a report
  for all texts.
\<close>

theorem matchLevel_buckets:
  "(80 \<le> matchScore (analyzeWithHuggingFace r j outcome)
      \<longrightarrow> matchLevel (analyzeWithHuggingFace r j outcome) = ''Strong Candidate Match'')
   \<and> (60 \<le> matchScore (analyzeWithHuggingFace r j outcome)
        \<and> matchScore (analyzeWithHuggingFace r j outcome) < 80
      \<longrightarrow> matchLevel (analyzeWithHuggingFace r j outcome) = ''Good Candidate Match'')
   \<and> (40 \<le> matchScore (analyzeWithHuggingFace r j outcome)
        \<and> matchScore (analyzeWithHuggingFace r j outcome) < 60
      \<longrightarrow> matchLevel (analyzeWithHuggingFace r j outcome) = ''Moderate Candidate Match'')
   \<and> (matchScore (analyzeWithHuggingFace r j outcome) < 40
      \<longrightarrow> matchLevel (analyzeWithHuggingFace r j outcome) = ''Potential Candidate Match'')
   \<and> (\<exists>rep. analyzeWithHuggingFace_simple r' j' random outcome' = Inr rep
       \<and> (80 \<le> matchScore rep \<longrightarrow> matchLevel rep = ''Strong Candidate Match'')
       \<and> (60 \<le> matchScore rep \<and> matchScore rep < 80
            \<longrightarrow> matchLevel rep = ''Good Candidate Match'')
       \<and> (40 \<le> matchScore rep \<and> matchScore rep < 60
            \<longrightarrow> matchLevel rep = ''Moderate Candidate Match'')
       \<and> (matchScore rep < 40 \<longrightarrow> matchLevel rep = ''Weak Candidate Match''))"
  by (simp add: report_fields matchLevel_value_def simple_report matchLevel_simple_def)

theorem matchLevel_buckets_witness:
  "matchScore (analyzeWithHuggingFace ''aws'' ''aws sql'' FetchRejected) = 50
   \<and> matchLevel (analyzeWithHuggingFace ''aws'' ''aws sql'' FetchRejected)
       = ''Moderate Candidate Match''
   \<and> matchScore (projr (analyzeWithHuggingFace_simple ''python'' ''java'' (0, 0) FetchRejected)) = 0
   \<and> matchLevel (projr (analyzeWithHuggingFace_simple ''python'' ''java'' (0, 0) FetchRejected))
       = ''Weak Candidate Match''"
proof -
  have s: "matchScore (analyzeWithHuggingFace ''aws'' ''aws sql'' FetchRejected) = 50"
    by (simp add: report_fields keywords_aws keywords_aws_sql score_aws_sql)
  note th = matchLevel_buckets [of "''aws''" "''aws sql''" FetchRejected "''python''" "''java''"
      "(0, 0)" FetchRejected]
  from th s have "matchLevel (analyzeWithHuggingFace ''aws'' ''aws sql'' FetchRejected)
      = ''Moderate Candidate Match''"
    by simp
  moreover from th have "matchScore (projr (analyzeWithHuggingFace_simple ''python'' ''java'' (0, 0) FetchRejected)) = 0
    \<and> matchLevel (projr (analyzeWithHuggingFace_simple ''python'' ''java'' (0, 0) FetchRejected))
        = ''Weak Candidate Match''"
    by (simp add: simple_python_java_zero)
  ultimately show ?thesis using s by blast
qed

subsection \<open>Keyword candidates\<close>

text \<open>
  Claim C6: a token of the normalised text, as split at white space, is among the
  keyword candidates exactly when it is longer than two characters, is no stop word,
  and is a technical term or contains a digit or one of \<open>+ # . -\<close>. The candidates are
  the filtered tokens \<open>words\<close> of the source, and equally the list \<open>allTerms\<close>, since
  the multi-word terms added there all contain a space and a token contains none.
\<close>

theorem token_is_candidate:
  assumes "w \<in> set (split_ws (normalize t))"
  shows "(w \<in> set (singleWords (normalize t)) \<longleftrightarrow>
            length w > 2 \<and> \<not> isStopWord w
            \<and> (isTechnicalTerm w
                \<or> (\<exists>c\<in>set w. is_digit c \<or> c = CHR ''+'' \<or> c = CHR ''#'' \<or> c = CHR ''.'' \<or> c = CHR ''-'')))
         \<and> (w \<in> set (allTerms (normalize t)) \<longleftrightarrow> w \<in> set (singleWords (normalize t)))"
proof -
  have "\<forall>c\<in>set w. \<not> is_space c" using assms split_ws_chars by blast
  then have "CHR '' '' \<notin> set w" by (auto simp: is_space_def)
  then have "w \<notin> set (multiWordTerms (normalize t))" by (simp add: multiWordTerms_def)
  then show ?thesis
    using assms
    by (auto simp: allTerms_def set_new_Set singleWords_def keepWord_def has_digit_or_symbol_def
                   list_ex_iff)
qed

lemma tokens_example:
  "split_ws (normalize ''Use Python3 the'') = [''use'', ''python3'', ''the'']"
  by code_simp

lemma singleWords_example: "singleWords (normalize ''Use Python3 the'') = [''python3'']"
  by code_simp

theorem token_is_candidate_witness:
  "''python3'' \<in> set (split_ws (normalize ''Use Python3 the''))
   \<and> ''python3'' \<in> set (allTerms (normalize ''Use Python3 the''))
   \<and> \<not> isStopWord ''python3'' \<and> \<not> isTechnicalTerm ''python3''
   \<and> ''the'' \<in> set (split_ws (normalize ''Use Python3 the''))
   \<and> ''the'' \<notin> set (allTerms (normalize ''Use Python3 the''))
   \<and> isStopWord ''the''"
proof -
  have 1: "''python3'' \<in> set (split_ws (normalize ''Use Python3 the''))"
    and 2: "''the'' \<in> set (split_ws (normalize ''Use Python3 the''))"
    by (simp_all add: tokens_example)
  from token_is_candidate [OF 1] token_is_candidate [OF 2] 1 2 technical_samples show ?thesis
    by (simp add: singleWords_example)
qed

subsection \<open>Skills found\<close>

text \<open>
  Claim C7, as stated, fails on the first version of the analysis: for the resume
  \<open>python\<close> and the job description \<open>java\<close> no keyword is shared, the resume has the
  technical keyword \<open>python\<close>, and \<open>skillsFound\<close> is empty.
\<close>

theorem skillsFound_counterexample:
  "skillsFound (projr (analyzeWithHuggingFace_simple ''python'' ''java'' (0, 0) FetchRejected)) = []
   \<and> analyzeWithHuggingFace_simple ''python'' ''java'' (0, 0) FetchRejected
       = Inr (projr (analyzeWithHuggingFace_simple ''python'' ''java'' (0, 0) FetchRejected))
   \<and> matchedSkills_simple (extractKeywords_simple ''python'') (extractKeywords_simple ''java'') = []
   \<and> take 5 (filter isTechnicalTerm (extractKeywords_simple ''python'')) = [''python'']"
  using simple_python_java_zero
  by (simp add: keywords_simple_samples matchedSkills_simple_def technical_samples)

text \<open>
  Claim C7, amended. In the analysis with the term catalog, \<open>skillsFound\<close> is the first
  eight elements of \<open>matchedSkills\<close> when that list is not empty; otherwise it is the
  first five resume keywords that are in the technical-term catalog, hence empty when
  the resume has none. In the first version (\<open>server.js\<close>), \<open>skillsFound\<close> is its
  \<open>matchedSkills\<close>: the first six resume keywords that are among the job-description
  keywords, in the order of the resume keywords, with no other list to fall back on.
\<close>

theorem skillsFound_value:
  "skillsFound (analyzeWithHuggingFace r j outcome) =
     (if matchedSkills (extractKeywords r) (extractKeywords j) \<noteq> []
      then take 8 (matchedSkills (extractKeywords r) (extractKeywords j))
      else take 5 (filter isTechnicalTerm (extractKeywords r)))
   \<and> (matchedSkills (extractKeywords r) (extractKeywords j) = []
        \<and> filter isTechnicalTerm (extractKeywords r) = []
      \<longrightarrow> skillsFound (analyzeWithHuggingFace r j outcome) = [])
   \<and> (\<exists>rep. analyzeWithHuggingFace_simple r' j' random outcome' = Inr rep
        \<and> skillsFound rep
            = take 6 (filter (\<lambda>skill. skill \<in> set (extractKeywords_simple j'))
                             (extractKeywords_simple r')))"
  by (simp add: report_fields displaySkills_def filter_tech_extractKeywords simple_report
        matchedSkills_simple_def)

theorem skillsFound_value_witness:
  "matchedSkills (extractKeywords ''aws'') (extractKeywords ''aws sql'') \<noteq> []
   \<and> skillsFound (analyzeWithHuggingFace ''aws'' ''aws sql'' FetchRejected) = [''aws'']
   \<and> matchedSkills (extractKeywords ''aws'') (extractKeywords ''sql'') = []
   \<and> skillsFound (analyzeWithHuggingFace ''aws'' ''sql'' FetchRejected) = [''aws'']
   \<and> skillsFound (projr (analyzeWithHuggingFace_simple ''python'' ''python'' (0, 0) FetchRejected))
       = [''python'']"
proof -
  from skillsFound_value [of "''aws''" "''aws sql''" FetchRejected "''python''" "''python''"
      "(0, 0)" FetchRejected]
  have 1: "skillsFound (analyzeWithHuggingFace ''aws'' ''aws sql'' FetchRejected) = [''aws'']"
    and 3: "skillsFound (projr (analyzeWithHuggingFace_simple ''python'' ''python'' (0, 0) FetchRejected))
       = [''python'']"
    by (auto simp: keywords_aws keywords_aws_sql matched_aws_sql keywords_simple_samples)
  from skillsFound_value [of "''aws''" "''sql''" FetchRejected "''python''" "''python''"
      "(0, 0)" FetchRejected]
  have 2: "skillsFound (analyzeWithHuggingFace ''aws'' ''sql'' FetchRejected) = [''aws'']"
    by (simp add: keywords_aws keywords_sql matched_aws_only_sql technical_samples)
  from 1 2 3 show ?thesis
    by (simp add: keywords_aws keywords_aws_sql keywords_sql matched_aws_sql
          matched_aws_only_sql)
qed

subsection \<open>The score\<close>

lemma technical_lengths:
  "length (technicalMatches (extractKeywords r) (extractKeywords j))
     \<le> length (technicalRequirements (extractKeywords j))"
  "length (technicalRequirements (extractKeywords j)) \<le> 30"
proof -
  show "length (technicalMatches (extractKeywords r) (extractKeywords j))
     \<le> length (technicalRequirements (extractKeywords j))"
    unfolding technicalMatches_def matchedSkills_def technicalRequirements_def
    by (rule length_filter_filter_le)
  have "length (technicalRequirements (extractKeywords j)) \<le> length (extractKeywords j)"
    unfolding technicalRequirements_def by (rule length_filter_le)
  with length_extractKeywords [of j]
  show "length (technicalRequirements (extractKeywords j)) \<le> 30" by (rule order_trans [rotated])
qed

lemma technical_score_value:
  assumes "technicalRequirements (extractKeywords j) \<noteq> []"
  shows "matchScore_value (extractKeywords r) (extractKeywords j)
     = min (round_half_up
              (100 * of_nat (length (technicalMatches (extractKeywords r) (extractKeywords j)))
                 / of_nat (length (technicalRequirements (extractKeywords j)))))
           95"
proof -
  let ?a = "length (technicalMatches (extractKeywords r) (extractKeywords j))"
  let ?b = "length (technicalRequirements (extractKeywords j))"
  from assms have b: "0 < ?b" by simp
  from percentage_100 [OF b technical_lengths(2) technical_lengths(1)]
  have "percentage ?a ?b 100 = (200 * int ?a + int ?b) div (2 * int ?b)" .
  also from round_half_up_div [OF b, of 100 ?a]
  have "\<dots> = round_half_up (100 * of_nat ?a / of_nat ?b)" by simp
  finally show ?thesis using b by (simp add: matchScore_value_def)
qed

lemma simple_python_teamwork:
  "extractKeywords_simple ''python teamwork'' = [''python'', ''teamwork'']"
  "matchedSkills_simple [''python''] [''python'', ''teamwork''] = [''python'']"
  "matchScore_simple [''python''] [''python'', ''teamwork''] (0, 0) = 50"
  "isTechnicalTerm ''teamwork'' = False"
  by code_simp+

lemma keywords_versions:
  "extractKeywords ''x01 x02 x03 x04 x05 x06 x07''
     = [''x01'', ''x02'', ''x03'', ''x04'', ''x05'', ''x06'', ''x07'']"
  "extractKeywords ''x01 x02 x03 x04 x05 x06 x07 x08 x09 x10''
     = [''x01'', ''x02'', ''x03'', ''x04'', ''x05'', ''x06'', ''x07'', ''x08'', ''x09'', ''x10'']"
  "extractKeywords ''the and for'' = []"
  by code_simp+

lemma versions_score:
  "technicalRequirements
     [''x01'', ''x02'', ''x03'', ''x04'', ''x05'', ''x06'', ''x07'', ''x08'', ''x09'', ''x10''] = []"
  "matchedSkills [''x01'', ''x02'', ''x03'', ''x04'', ''x05'', ''x06'', ''x07'']
     [''x01'', ''x02'', ''x03'', ''x04'', ''x05'', ''x06'', ''x07'', ''x08'', ''x09'', ''x10'']
     = [''x01'', ''x02'', ''x03'', ''x04'', ''x05'', ''x06'', ''x07'']"
  "matchScore_value [''x01'', ''x02'', ''x03'', ''x04'', ''x05'', ''x06'', ''x07'']
     [''x01'', ''x02'', ''x03'', ''x04'', ''x05'', ''x06'', ''x07'', ''x08'', ''x09'', ''x10'']
     = 59"
  "matchLevel_value 59 = ''Moderate Candidate Match''"
  "matchLevel_value 60 = ''Good Candidate Match''"
  "js_div (js_int 7) (js_int 10) = (6305039478318694, - 53)"
  "js_mul (6305039478318694, - 53) (js_int 85) = (8373880557142015, - 47)"
  "Math_round (8373880557142015, - 47) = 59"
  "matchScore_value [''x01''] [] = 0"
  by code_simp+

lemma exact_sample:
  "round_half_up (85 * 7 / of_nat (max 10 1)) = 60"
  "double_value (8373880557142015, - 47) < 119 / 2"
  "double_value (6305039478318694, - 53) < 7 / 10"
  by (simp_all add: round_half_up_def double_value_def)


lemma technicalMatches_filter:
  "technicalMatches (extractKeywords r) (extractKeywords j)
     = filter isTechnicalTerm (matchedSkills (extractKeywords r) (extractKeywords j))"
  unfolding technicalMatches_def
  by (rule filter_cong) (auto simp: matchedSkills_def extractKeywords_lower)

text \<open>
  Claim C1, as stated, fails on the first version of the analysis, which consults no
  term catalog: for the resume \<open>python\<close> and the job description \<open>python teamwork\<close>, with
  \<open>Math.random()\<close> giving 0, the score is 50, half of the job-description keywords being
  matched, while the only job-description keyword of the catalog, \<open>python\<close>, is
  matched, so that the claimed value is 95.
\<close>

theorem matchScore_counterexample:
  "matchScore (projr (analyzeWithHuggingFace_simple ''python'' ''python teamwork'' (0, 0)
                        FetchRejected)) = 50
   \<and> analyzeWithHuggingFace_simple ''python'' ''python teamwork'' (0, 0) FetchRejected
       = Inr (projr (analyzeWithHuggingFace_simple ''python'' ''python teamwork'' (0, 0)
                       FetchRejected))
   \<and> filter isTechnicalTerm (extractKeywords_simple ''python teamwork'') = [''python'']
   \<and> filter isTechnicalTerm
         (matchedSkills_simple (extractKeywords_simple ''python'')
                               (extractKeywords_simple ''python teamwork'')) = [''python'']
   \<and> min (round_half_up (100 * of_nat (length [''python'']) / of_nat (length [''python''])))
          95 = 95"
  using simple_returns [of "''python''" "''python teamwork''" "(0, 0)" FetchRejected]
  by (simp add: simple_fields keywords_simple_samples simple_python_teamwork technical_samples
        round_half_up_def)

text \<open>
  Claim C1, amended. In the analysis with the term catalog, whenever a keyword of the
  job description is in the catalog, the score is
  \<open>min(round(100 \<times> |technicalMatches| / |technicalRequirements|), 95)\<close>, the quotient
  being exact and halves rounded upwards: the doubles of the code give that value.
  There \<open>technicalMatches\<close> is the list of the matched skills in the catalog and
  \<open>technicalRequirements\<close> the list of the job-description keywords in the catalog. In
  the first version (\<open>server.js\<close>) the score is
  \<open>min(Math.round((|matchedSkills| / max(|jdKeywords|, 1)) * 100 + Math.random() * 10), 95)\<close>.
  In both the score never exceeds 95.
\<close>

theorem matchScore_technical:
  "(technicalRequirements (extractKeywords j) \<noteq> [] \<longrightarrow>
      matchScore (analyzeWithHuggingFace r j outcome)
        = min (round_half_up
                 (100 * of_nat (length (technicalMatches (extractKeywords r) (extractKeywords j)))
                    / of_nat (length (technicalRequirements (extractKeywords j)))))
              95)
   \<and> matchScore (analyzeWithHuggingFace r j outcome) \<le> 95
   \<and> technicalMatches (extractKeywords r) (extractKeywords j)
       = filter isTechnicalTerm (matchedSkills (extractKeywords r) (extractKeywords j))
   \<and> technicalRequirements (extractKeywords j) = filter isTechnicalTerm (extractKeywords j)
   \<and> (\<exists>rep. analyzeWithHuggingFace_simple r' j' random outcome' = Inr rep
        \<and> matchScore rep
            = min (Math_round
                     (js_add
                        (js_mul
                           (js_div
                              (js_int (int (length (matchedSkills_simple
                                                      (extractKeywords_simple r')
                                                      (extractKeywords_simple j')))))
                              (js_int (int (max (length (extractKeywords_simple j')) 1))))
                           (js_int 100))
                        (js_mul random (js_int 10))))
                  95
        \<and> matchScore rep \<le> 95)"
proof -
  have 1: "technicalRequirements (extractKeywords j) \<noteq> [] \<longrightarrow>
      matchScore (analyzeWithHuggingFace r j outcome)
        = min (round_half_up
                 (100 * of_nat (length (technicalMatches (extractKeywords r) (extractKeywords j)))
                    / of_nat (length (technicalRequirements (extractKeywords j)))))
              95"
    using technical_score_value [of j r] by (simp only: report_fields) blast
  have 2: "matchScore (analyzeWithHuggingFace r j outcome) \<le> 95"
    by (simp add: report_fields matchScore_value_def)
  have 3: "technicalRequirements (extractKeywords j) = filter isTechnicalTerm (extractKeywords j)"
    by (simp add: technicalRequirements_def filter_tech_extractKeywords)
  have 4: "\<exists>rep. analyzeWithHuggingFace_simple r' j' random outcome' = Inr rep
        \<and> matchScore rep
            = min (Math_round
                     (js_add
                        (js_mul
                           (js_div
                              (js_int (int (length (matchedSkills_simple
                                                      (extractKeywords_simple r')
                                                      (extractKeywords_simple j')))))
                              (js_int (int (max (length (extractKeywords_simple j')) 1))))
                           (js_int 100))
                        (js_mul random (js_int 10))))
                  95
        \<and> matchScore rep \<le> 95"
    by (simp add: simple_report matchScore_simple_def)
  from 1 2 technicalMatches_filter 3 4 show ?thesis by blast
qed

lemma technical_aws_sql:
  "technicalRequirements [''aws'', ''sql''] = [''aws'', ''sql'']"
  "technicalMatches [''aws''] [''aws'', ''sql''] = [''aws'']"
  by code_simp+

theorem matchScore_technical_witness:
  "technicalRequirements (extractKeywords ''aws sql'') = [''aws'', ''sql'']
   \<and> technicalMatches (extractKeywords ''aws'') (extractKeywords ''aws sql'') = [''aws'']
   \<and> matchScore (analyzeWithHuggingFace ''aws'' ''aws sql'' FetchRejected) = 50
   \<and> matchScore (projr (analyzeWithHuggingFace_simple ''python'' ''python teamwork'' (0, 0)
                          FetchRejected)) = 50"
proof -
  note th = matchScore_technical [where r = "''aws''" and j = "''aws sql''"
      and outcome = FetchRejected and r' = "''python''" and j' = "''python teamwork''"
      and random = "(0, 0)" and outcome' = FetchRejected]
  have t: "technicalRequirements (extractKeywords ''aws sql'') = [''aws'', ''sql'']"
    "technicalMatches (extractKeywords ''aws'') (extractKeywords ''aws sql'') = [''aws'']"
    by (simp_all add: keywords_aws keywords_aws_sql technical_aws_sql)
  from th have "technicalRequirements (extractKeywords ''aws sql'') \<noteq> [] \<longrightarrow>
      matchScore (analyzeWithHuggingFace ''aws'' ''aws sql'' FetchRejected)
        = min (round_half_up
                 (100 * of_nat (length (technicalMatches (extractKeywords ''aws'')
                                          (extractKeywords ''aws sql'')))
                    / of_nat (length (technicalRequirements (extractKeywords ''aws sql'')))))
              95"
    by (rule conjunct1)
  then have a: "matchScore (analyzeWithHuggingFace ''aws'' ''aws sql'' FetchRejected) = 50"
    using round_half_up_div [of 2 100 1] by (simp add: t)
  have b: "matchScore (projr (analyzeWithHuggingFace_simple ''python'' ''python teamwork'' (0, 0)
                          FetchRejected)) = 50"
    by (simp add: simple_fields keywords_simple_samples simple_python_teamwork)
  from t a b show ?thesis by blast
qed

text \<open>
  Claim C4 at a failing input. The resume \<open>x01 x02 x03 x04 x05 x06 x07\<close> and the job
  description \<open>x01 x02 x03 x04 x05 x06 x07 x08 x09 x10\<close> give ten job-description
  keywords, none of the catalog, seven of them matched. The quotient \<open>7 / 10\<close> in doubles
  lies below seven tenths, its product with 85 lies below 59.5, and \<open>Math.round\<close> gives
  59, where the exact \<open>85 \<times> 7 / 10 = 59.5\<close> rounds to 60; the report is then
  \<open>Moderate Candidate Match\<close> instead of \<open>Good Candidate Match\<close>. With no keyword in the
  job description the denominator is 1 and the score is 0.
\<close>

theorem fallback_score_rounding:
  "technicalRequirements (extractKeywords ''x01 x02 x03 x04 x05 x06 x07 x08 x09 x10'') = []
   \<and> length (extractKeywords ''x01 x02 x03 x04 x05 x06 x07 x08 x09 x10'') = 10
   \<and> length (matchedSkills (extractKeywords ''x01 x02 x03 x04 x05 x06 x07'')
                (extractKeywords ''x01 x02 x03 x04 x05 x06 x07 x08 x09 x10'')) = 7
   \<and> matchScore (analyzeWithHuggingFace ''x01 x02 x03 x04 x05 x06 x07''
                   ''x01 x02 x03 x04 x05 x06 x07 x08 x09 x10'' FetchRejected) = 59
   \<and> matchLevel (analyzeWithHuggingFace ''x01 x02 x03 x04 x05 x06 x07''
                   ''x01 x02 x03 x04 x05 x06 x07 x08 x09 x10'' FetchRejected)
       = ''Moderate Candidate Match''
   \<and> js_div (js_int 7) (js_int 10) = (6305039478318694, - 53)
   \<and> double_value (6305039478318694, - 53) < 7 / 10
   \<and> js_mul (6305039478318694, - 53) (js_int 85) = (8373880557142015, - 47)
   \<and> double_value (8373880557142015, - 47) < 119 / 2
   \<and> Math_round (8373880557142015, - 47) = 59
   \<and> round_half_up (85 * 7 / of_nat (max 10 1)) = 60
   \<and> matchLevel_value 60 = ''Good Candidate Match''
   \<and> extractKeywords ''the and for'' = []
   \<and> matchScore (analyzeWithHuggingFace ''x01'' ''the and for'' FetchRejected) = 0"
proof -
  let ?r = "''x01 x02 x03 x04 x05 x06 x07''"
  let ?j = "''x01 x02 x03 x04 x05 x06 x07 x08 x09 x10''"
  have k: "extractKeywords ''x01'' = [''x01'']" by code_simp
  have a: "technicalRequirements (extractKeywords ?j) = []"
    by (simp add: keywords_versions versions_score)
  have b: "length (extractKeywords ?j) = 10"
    by (simp add: keywords_versions)
  have c: "length (matchedSkills (extractKeywords ?r) (extractKeywords ?j)) = 7"
    by (simp add: keywords_versions versions_score)
  have d: "matchScore (analyzeWithHuggingFace ?r ?j FetchRejected) = 59"
    by (simp add: report_fields keywords_versions versions_score)
  have e: "matchLevel (analyzeWithHuggingFace ?r ?j FetchRejected) = ''Moderate Candidate Match''"
    by (simp add: report_fields keywords_versions versions_score)
  have f: "matchScore (analyzeWithHuggingFace ''x01'' ''the and for'' FetchRejected) = 0"
    by (simp add: report_fields k keywords_versions versions_score)
  show ?thesis
    by (intro conjI; (rule a b c d e f versions_score exact_sample keywords_versions))
qed

subsection \<open>Title and company\<close>

lemma first_match_None: "first_match ps t = None \<longleftrightarrow> (\<forall>p\<in>set ps. js_match t p = None)"
  by (induction ps) (auto split: option.splits)

lemma first_match_first:
  "first_match ps t = Some m \<Longrightarrow>
     \<exists>i<length ps. js_match t (ps ! i) = Some m \<and> (\<forall>k<i. js_match t (ps ! k) = None)"
proof (induction ps)
  case Nil
  then show ?case by simp
next
  case (Cons p ps)
  show ?case
  proof (cases "js_match t p")
    case None
    with Cons obtain i where i: "i < length ps" "js_match t (ps ! i) = Some m"
      "\<forall>k<i. js_match t (ps ! k) = None" by auto
    have "\<forall>k<Suc i. js_match t ((p # ps) ! k) = None"
      using None i(3) by (auto simp: less_Suc_eq_0_disj)
    with i show ?thesis by (intro exI [of _ "Suc i"]) simp
  next
    case (Some m')
    with Cons.prems have "js_match t ((p # ps) ! 0) = Some m" by simp
    then show ?thesis by (intro exI [of _ 0]) simp
  qed
qed

lemma first_group_first_match:
  assumes "\<forall>p\<in>set ps. sets_group p"
  shows "case first_match ps t of
           None \<Rightarrow> first_group ps t placeholder = placeholder
         | Some m \<Rightarrow> \<exists>g. capture m = Some g \<and> g \<noteq> [] \<and> first_group ps t placeholder = trim g"
  using assms
proof (induction ps)
  case Nil
  then show ?case by simp
next
  case (Cons p ps)
  show ?case
  proof (cases "js_match t p")
    case None
    then have "first_group (p # ps) t placeholder = first_group ps t placeholder" by simp
    with None Cons show ?thesis by (auto split: option.splits)
  next
    case (Some m)
    from Cons.prems have "sets_group p" by simp
    from js_match_group [OF this Some] obtain g where "capture m = Some g" "g \<noteq> []" by blast
    with Some show ?thesis by simp
  qed
qed

lemma patterns_set_group:
  "\<forall>p\<in>set titlePatterns. sets_group p" "\<forall>p\<in>set companyPatterns. sets_group p"
  by (simp_all add: titlePatterns_def companyPatterns_def rules_set_group)

text \<open>
  Claim C8: the title and the company are read with the ordered lists of rules, the
  first rule that matches the job description winning, and the result is the trimmed
  text of the capturing group of that rule's match (the group of a matching rule is
  never empty, so the test \<open>match[1]\<close> of the loop passes no matching rule over); when
  no title rule and no company rule matches, the title is \<open>Target Position\<close> and the
  company is \<open>Target Company\<close>.
\<close>

theorem field_extraction:
  "(case first_match titlePatterns j of
      None \<Rightarrow> positionTitle (analyzeWithHuggingFace r j outcome) = ''Target Position''
    | Some m \<Rightarrow> \<exists>g. capture m = Some g
                    \<and> positionTitle (analyzeWithHuggingFace r j outcome) = trim g)
   \<and> (case first_match companyPatterns j of
        None \<Rightarrow> company (analyzeWithHuggingFace r j outcome) = ''Target Company''
      | Some m \<Rightarrow> \<exists>g. capture m = Some g
                      \<and> company (analyzeWithHuggingFace r j outcome) = trim g)
   \<and> (\<forall>m. first_match titlePatterns j = Some m \<longrightarrow>
          (\<exists>i<length titlePatterns. js_match j (titlePatterns ! i) = Some m
              \<and> (\<forall>k<i. js_match j (titlePatterns ! k) = None)))
   \<and> (\<forall>m. first_match companyPatterns j = Some m \<longrightarrow>
          (\<exists>i<length companyPatterns. js_match j (companyPatterns ! i) = Some m
              \<and> (\<forall>k<i. js_match j (companyPatterns ! k) = None)))
   \<and> ((\<forall>p\<in>set titlePatterns. js_match j p = None)
        \<and> (\<forall>p\<in>set companyPatterns. js_match j p = None)
      \<longrightarrow> positionTitle (analyzeWithHuggingFace r j outcome) = ''Target Position''
          \<and> company (analyzeWithHuggingFace r j outcome) = ''Target Company'')"
proof -
  note t = first_group_first_match [OF patterns_set_group(1), of j "''Target Position''"]
  note c = first_group_first_match [OF patterns_set_group(2), of j "''Target Company''"]
  have 1: "case first_match titlePatterns j of
      None \<Rightarrow> positionTitle (analyzeWithHuggingFace r j outcome) = ''Target Position''
    | Some m \<Rightarrow> \<exists>g. capture m = Some g
                    \<and> positionTitle (analyzeWithHuggingFace r j outcome) = trim g"
    using t by (auto simp: report_fields positionTitle_value_def split: option.splits)
  have 2: "case first_match companyPatterns j of
        None \<Rightarrow> company (analyzeWithHuggingFace r j outcome) = ''Target Company''
      | Some m \<Rightarrow> \<exists>g. capture m = Some g
                      \<and> company (analyzeWithHuggingFace r j outcome) = trim g"
    using c by (auto simp: report_fields company_value_def split: option.splits)
  have 3: "positionTitle (analyzeWithHuggingFace r j outcome) = ''Target Position''"
    if "\<forall>p\<in>set titlePatterns. js_match j p = None"
    using that 1 first_match_None [of titlePatterns j] by simp
  have 4: "company (analyzeWithHuggingFace r j outcome) = ''Target Company''"
    if "\<forall>p\<in>set companyPatterns. js_match j p = None"
    using that 2 first_match_None [of companyPatterns j] by simp
  from 1 2 3 4 first_match_first show ?thesis by blast
qed

lemma match_samples:
  "first_match titlePatterns ''hiring a data engineer. job: QA''
     = Some \<lparr>behind = ''AQ :boj .reenigne atad a gnirih'', rest = [], capture = Some ''QA''\<rparr>"
  "js_match ''hiring a data engineer. job: QA'' title_hiring
     = Some \<lparr>behind = ''reenigne atad a gnirih'', rest = ''. job: QA'',
            capture = Some ''data engineer''\<rparr>"
  "first_match companyPatterns ''hiring a data engineer. job: QA'' = None"
  "trim ''QA'' = ''QA''"
  by code_simp+

lemma no_match_sample:
  "\<forall>p\<in>set titlePatterns. js_match ''we need help'' p = None"
  "\<forall>p\<in>set companyPatterns. js_match ''we need help'' p = None"
  by code_simp+

theorem field_extraction_witness:
  "positionTitle (analyzeWithHuggingFace ''aws'' ''hiring a data engineer. job: QA'' FetchRejected)
     = ''QA''
   \<and> js_match ''hiring a data engineer. job: QA'' title_hiring
       = Some \<lparr>behind = ''reenigne atad a gnirih'', rest = ''. job: QA'',
              capture = Some ''data engineer''\<rparr>
   \<and> company (analyzeWithHuggingFace ''aws'' ''hiring a data engineer. job: QA'' FetchRejected)
       = ''Target Company''
   \<and> positionTitle (analyzeWithHuggingFace ''aws'' ''we need help'' FetchRejected)
       = ''Target Position''
   \<and> company (analyzeWithHuggingFace ''aws'' ''we need help'' FetchRejected) = ''Target Company''"
proof -
  note a = field_extraction [where r = "''aws''" and j = "''hiring a data engineer. job: QA''"
      and outcome = FetchRejected]
  note b = field_extraction [where r = "''aws''" and j = "''we need help''" and outcome = FetchRejected]
  from a have 1: "positionTitle
      (analyzeWithHuggingFace ''aws'' ''hiring a data engineer. job: QA'' FetchRejected) = ''QA''"
    by (simp add: match_samples)
  from a have 2: "company
      (analyzeWithHuggingFace ''aws'' ''hiring a data engineer. job: QA'' FetchRejected)
      = ''Target Company''"
    by (simp add: match_samples)
  from b no_match_sample have 3: "positionTitle
      (analyzeWithHuggingFace ''aws'' ''we need help'' FetchRejected) = ''Target Position''
    \<and> company (analyzeWithHuggingFace ''aws'' ''we need help'' FetchRejected) = ''Target Company''"
    by blast
  from 1 2 3 match_samples(2) show ?thesis by blast
qed



subsection \<open>Suggestions\<close>

lemma suggestions_fragments: "suggestions_of s = take 3 (fragments s)"
  by (simp add: suggestions_of_def fragments_def)

lemma improvements_value_cases:
  "improvements_value outcome =
     (case successful_summary outcome of
        None \<Rightarrow> fallback_improvements
      | Some summary \<Rightarrow>
          if fragments summary = [] then fallback_improvements
          else map (\<lambda>s. trim s @ ''.'') (take 3 (fragments summary)))"
proof (cases outcome)
  case FetchRejected
  then show ?thesis by (simp add: improvements_value_def hf_try_def successful_summary_def)
next
  case (Responded ok body)
  show ?thesis
  proof (cases "ok \<and> body \<noteq> None")
    case False
    then show ?thesis
      using Responded
      by (auto simp: improvements_value_def hf_try_def successful_summary_def split: bool.splits)
  next
    case True
    then obtain data where b: "ok" "body = Some data" by auto
    show ?thesis
    proof (cases "js_index0 data")
      case (Inl e)
      then show ?thesis
        using Responded b by (simp add: improvements_value_def hf_try_def successful_summary_def)
    next
      case (Inr first)
      show ?thesis
      proof (cases "optional_summary_text first")
        case None
        then show ?thesis
          using Responded b Inr
          by (simp add: improvements_value_def hf_try_def successful_summary_def)
      next
        case (Some v)
        have empty: "fragments [] = []" by (simp add: fragments_def trim_def)
        show ?thesis
          using Responded b Inr Some empty
          by (cases v)
             (auto simp: improvements_value_def hf_try_def successful_summary_def truthy_def
                suggestions_fragments)
      qed
    qed
  qed
qed

text \<open>
  Claim C9: for every outcome of the summarisation call other than a successful one
  whose summary yields a fragment of trimmed length above 10, \<open>improvements\<close> is the
  fixed list of three suggestions; no failure reaches the caller, the analysis returns
  its report and the other fields of the report are the same for all outcomes. On such
  a success, \<open>improvements\<close> is the first three surviving fragments, each trimmed and
  followed by a period.
\<close>

theorem improvements_cases:
  "improvements (analyzeWithHuggingFace r j outcome) =
     (case successful_summary outcome of
        None \<Rightarrow> fallback_improvements
      | Some summary \<Rightarrow>
          if fragments summary = [] then fallback_improvements
          else map (\<lambda>s. trim s @ ''.'') (take 3 (fragments summary)))
   \<and> improvements (analyzeWithHuggingFace r j FetchRejected) = fallback_improvements
   \<and> improvements (analyzeWithHuggingFace r j (Responded False body)) = fallback_improvements
   \<and> improvements (analyzeWithHuggingFace r j (Responded True None)) = fallback_improvements
   \<and> improvements (analyzeWithHuggingFace r j (Responded True (Some JNull))) = fallback_improvements
   \<and> (analyzeWithHuggingFace r j outcome)\<lparr>improvements := []\<rparr>
       = (analyzeWithHuggingFace r j outcome')\<lparr>improvements := []\<rparr>"
  by (simp add: report_fields improvements_value_cases successful_summary_def js_index0_def
        analyzeWithHuggingFace_def Let_def)

lemma summary_example:
  "successful_summary
     (Responded True (Some (JArr [JObj [(''summary_text'',
        JStr ''Add numbers to it. ok. Use more keywords.'')]])))
     = Some ''Add numbers to it. ok. Use more keywords.''"
  "fragments ''Add numbers to it. ok. Use more keywords.''
     = [''Add numbers to it'', '' Use more keywords'']"
  "map (\<lambda>s. trim s @ ''.'') (take 3 [''Add numbers to it'', '' Use more keywords''])
     = [''Add numbers to it.'', ''Use more keywords.'']"
  "successful_summary (Responded True (Some (JArr [JObj [(''summary_text'', JNum 5)]]))) = None"
  by code_simp+

theorem improvements_cases_witness:
  "improvements (analyzeWithHuggingFace ''aws'' ''aws sql''
     (Responded True (Some (JArr [JObj [(''summary_text'',
        JStr ''Add numbers to it. ok. Use more keywords.'')]]))))
     = [''Add numbers to it.'', ''Use more keywords.'']
   \<and> improvements (analyzeWithHuggingFace ''aws'' ''aws sql''
       (Responded True (Some (JArr [JObj [(''summary_text'', JNum 5)]])))) = fallback_improvements
   \<and> improvements (analyzeWithHuggingFace ''aws'' ''aws sql'' FetchRejected) = fallback_improvements"
proof -
  note a = improvements_cases [of "''aws''" "''aws sql''"
      "Responded True (Some (JArr [JObj [(''summary_text'',
        JStr ''Add numbers to it. ok. Use more keywords.'')]]))" None FetchRejected]
  note b = improvements_cases [of "''aws''" "''aws sql''"
      "Responded True (Some (JArr [JObj [(''summary_text'', JNum 5)]]))" None FetchRejected]
  from a have 1: "improvements (analyzeWithHuggingFace ''aws'' ''aws sql''
     (Responded True (Some (JArr [JObj [(''summary_text'',
        JStr ''Add numbers to it. ok. Use more keywords.'')]]))))
     = [''Add numbers to it.'', ''Use more keywords.'']"
    by (simp only: summary_example option.case list.distinct if_False simp_thms)
  from b have 2: "improvements (analyzeWithHuggingFace ''aws'' ''aws sql''
       (Responded True (Some (JArr [JObj [(''summary_text'', JNum 5)]])))) = fallback_improvements"
    by (simp only: summary_example option.case simp_thms)
  from a have 3: "improvements (analyzeWithHuggingFace ''aws'' ''aws sql'' FetchRejected)
      = fallback_improvements"
    by blast
  from 1 2 3 show ?thesis by blast
qed

subsection \<open>Determinism\<close>





end
